theory Spec2Isabelle
  imports Complex_Main "HOL-Library.Monad_Syntax"
begin

section \<open>The element type: \<open>typedef double cortex_float_t\<close>\<close>

text \<open>
  \<open>cortex.h\<close> fixes the element type to C's \<open>double\<close>. The model is IEEE 754 binary64
  with the default rounding (to nearest, ties to even): a finite value is
  \<open>(-1)^s * m * 2^e\<close> with a 53-bit significand \<open>m < 2^53\<close> and \<open>-1074 \<le> e \<le> 971\<close>;
  the zero of either sign is \<open>Finite s 0 (-1074)\<close>.
\<close>

datatype double = Finite bool nat int | Infinity bool | NaN

fun nbits :: "nat \<Rightarrow> nat" where
  "nbits n = (if n = 0 then 0 else 1 + nbits (n div 2))"

declare nbits.simps [simp del]

text \<open>\<open>round_pack s M E\<close> rounds the exact value \<open>(-1)^s * M * 2^E\<close> to binary64.\<close>

definition round_pack :: "bool \<Rightarrow> nat \<Rightarrow> int \<Rightarrow> double" where
  "round_pack s M E =
     (if M = 0 then Finite s 0 (- 1074)
      else
        let e' = max (E + int (nbits M) - 53) (- 1074) in
        if e' \<le> E then
          (if e' > 971 then Infinity s else Finite s (M * 2 ^ nat (E - e')) e')
        else
          let k = nat (e' - E);
              q = M div 2 ^ k;
              r = M mod 2 ^ k;
              h = 2 ^ (k - 1);
              m = (if r > h \<or> (r = h \<and> odd q) then q + 1 else q);
              m2 = (if m = 2 ^ 53 then 2 ^ 52 else m);
              e2 = (if m = 2 ^ 53 then e' + 1 else e')
          in if e2 > 971 then Infinity s else Finite s m2 e2)"

definition d_zero :: double where   \<comment> \<open>the literal \<open>0.0\<close>\<close>
  "d_zero = Finite False 0 (- 1074)"

definition d_one :: double where   \<comment> \<open>the literal \<open>1.0\<close>\<close>
  "d_one = Finite False (2 ^ 52) (- 52)"

text \<open>Conversion \<open>int64_t \<rightarrow> double\<close>, as in \<open>sum / tensor->size\<close>.\<close>

definition of_int64 :: "int \<Rightarrow> double" where
  "of_int64 i = round_pack (i < 0) (nat \<bar>i\<bar>) 0"

text \<open>The signed integer \<open>(-1)^s * m * 2^(e - g)\<close>, for a common exponent \<open>g \<le> e\<close>.\<close>

definition scaled :: "bool \<Rightarrow> nat \<Rightarrow> int \<Rightarrow> int \<Rightarrow> int" where
  "scaled s m e g = (if s then - 1 else 1) * int m * 2 ^ nat (e - g)"

fun dneg :: "double \<Rightarrow> double" where
  "dneg (Finite s m e) = Finite (\<not> s) m e"
| "dneg (Infinity s) = Infinity (\<not> s)"
| "dneg NaN = NaN"

fun dadd :: "double \<Rightarrow> double \<Rightarrow> double" where
  "dadd NaN y = NaN"
| "dadd x NaN = NaN"
| "dadd (Infinity s) (Infinity t) = (if s = t then Infinity s else NaN)"
| "dadd (Infinity s) (Finite t n f) = Infinity s"
| "dadd (Finite s m e) (Infinity t) = Infinity t"
| "dadd (Finite s m e) (Finite t n f) =
     (let g = min e f; c = scaled s m e g + scaled t n f g
      in if c = 0 then Finite (s \<and> t) 0 (- 1074)
         else round_pack (c < 0) (nat \<bar>c\<bar>) g)"

definition dsub :: "double \<Rightarrow> double \<Rightarrow> double" where
  "dsub x y = dadd x (dneg y)"

fun dmul :: "double \<Rightarrow> double \<Rightarrow> double" where
  "dmul NaN y = NaN"
| "dmul x NaN = NaN"
| "dmul (Infinity s) (Infinity t) = Infinity (s \<noteq> t)"
| "dmul (Infinity s) (Finite t n f) = (if n = 0 then NaN else Infinity (s \<noteq> t))"
| "dmul (Finite s m e) (Infinity t) = (if m = 0 then NaN else Infinity (s \<noteq> t))"
| "dmul (Finite s m e) (Finite t n f) = round_pack (s \<noteq> t) (m * n) (e + f)"

text \<open>
  Division computes the quotient of the significands with 64 extra bits and a sticky
  bit for a non-zero remainder, which is enough for a correctly rounded result.
\<close>

fun ddiv :: "double \<Rightarrow> double \<Rightarrow> double" where
  "ddiv NaN y = NaN"
| "ddiv x NaN = NaN"
| "ddiv (Infinity s) (Infinity t) = NaN"
| "ddiv (Infinity s) (Finite t n f) = Infinity (s \<noteq> t)"
| "ddiv (Finite s m e) (Infinity t) = Finite (s \<noteq> t) 0 (- 1074)"
| "ddiv (Finite s m e) (Finite t n f) =
     (if n = 0 then (if m = 0 then NaN else Infinity (s \<noteq> t))
      else
        let k = 64 + nbits n;
            q = (m * 2 ^ k) div n;
            r = (m * 2 ^ k) mod n
        in round_pack (s \<noteq> t) (2 * q + (if r = 0 then 0 else 1)) (e - f - int k - 1))"

text \<open>The comparisons \<open>==\<close>, \<open><\<close>, \<open>>\<close>, \<open><=\<close>: false whenever an operand is NaN;
  the two zeros compare equal.\<close>

fun deq :: "double \<Rightarrow> double \<Rightarrow> bool" where
  "deq NaN y = False"
| "deq x NaN = False"
| "deq (Infinity s) (Infinity t) = (s = t)"
| "deq (Infinity s) (Finite t n f) = False"
| "deq (Finite s m e) (Infinity t) = False"
| "deq (Finite s m e) (Finite t n f) =
     (let g = min e f in scaled s m e g = scaled t n f g)"

fun dlt :: "double \<Rightarrow> double \<Rightarrow> bool" where
  "dlt NaN y = False"
| "dlt x NaN = False"
| "dlt (Infinity s) (Infinity t) = (s \<and> \<not> t)"
| "dlt (Infinity s) (Finite t n f) = s"
| "dlt (Finite s m e) (Infinity t) = (\<not> t)"
| "dlt (Finite s m e) (Finite t n f) =
     (let g = min e f in scaled s m e g < scaled t n f g)"

definition dgt :: "double \<Rightarrow> double \<Rightarrow> bool" where
  "dgt x y = dlt y x"

definition dle :: "double \<Rightarrow> double \<Rightarrow> bool" where
  "dle x y = (dlt x y \<or> deq x y)"

text \<open>
  Conversion \<open>double \<rightarrow> int64_t\<close> truncates toward zero; it is undefined behaviour
  (\<open>None\<close>) for NaN, an infinity and a value outside the range of \<open>int64_t\<close>.
\<close>

definition in_int64 :: "int \<Rightarrow> bool" where
  "in_int64 i = (- (2 ^ 63) \<le> i \<and> i < 2 ^ 63)"

fun to_int64 :: "double \<Rightarrow> int option" where
  "to_int64 (Finite s m e) =
     (let a = (if e \<ge> 0 then int m * 2 ^ nat e else int m div 2 ^ nat (- e));
          v = (if s then - a else a)
      in if in_int64 v then Some v else None)"
| "to_int64 (Infinity s) = None"
| "to_int64 NaN = None"

text \<open>
  The value of a finite double as a real number, the doubles that binary64 has (a
  significand of at most 53 bits, the exponent in range), and an exact addition: both
  operands and the double sum are finite, and the sum has the value of the real sum, so
  neither rounding nor overflow took anything away.
\<close>

fun dval :: "double \<Rightarrow> real" where
  "dval (Finite s m e) = (if s then - 1 else 1) * real m * 2 powi e"
| "dval (Infinity s) = 0"
| "dval NaN = 0"

fun d_finite :: "double \<Rightarrow> bool" where
  "d_finite (Finite s m e) = True"
| "d_finite (Infinity s) = False"
| "d_finite NaN = False"

fun wf_double :: "double \<Rightarrow> bool" where
  "wf_double (Finite s m e) = (m < 2 ^ 53 \<and> - 1074 \<le> e \<and> e \<le> 971)"
| "wf_double (Infinity s) = True"
| "wf_double NaN = True"

definition dadd_exact :: "double \<Rightarrow> double \<Rightarrow> bool" where
  "dadd_exact x y =
     (d_finite x \<and> d_finite y \<and> d_finite (dadd x y) \<and> dval (dadd x y) = dval x + dval y)"

text \<open>The other literals of \<open>cortex.c\<close>, each the binary64 nearest to the decimal.\<close>

definition d_two :: double where   \<comment> \<open>\<open>2.0\<close>\<close>
  "d_two = Finite False (2 ^ 52) (- 51)"

definition d_1em8 :: double where   \<comment> \<open>\<open>1e-8\<close>\<close>
  "d_1em8 = Finite False 6044629098073146 (- 79)"

definition M_PI :: double where   \<comment> \<open>\<open>3.14159265358979323846\<close>\<close>
  "M_PI = Finite False 7074237752028440 (- 51)"

definition RAND_MAX :: int where   \<comment> \<open>the value of glibc\<close>
  "RAND_MAX = 2147483647"

text \<open>
  The functions of \<open>math.h\<close> that \<open>cortex.c\<close> calls are library code outside the
  repository; the model takes them as a parameter.
\<close>

record libm =
  c_exp :: "double \<Rightarrow> double"
  c_log :: "double \<Rightarrow> double"
  c_sqrt :: "double \<Rightarrow> double"
  c_tanh :: "double \<Rightarrow> double"
  c_cos :: "double \<Rightarrow> double"
  c_pow :: "double \<Rightarrow> double \<Rightarrow> double"
  c_fmax :: "double \<Rightarrow> double \<Rightarrow> double"
  c_fmin :: "double \<Rightarrow> double \<Rightarrow> double"

section \<open>Memory, undefined behaviour and loops\<close>

text \<open>
  A computation of the model returns an \<open>option\<close>: \<open>None\<close> is undefined behaviour of
  the C program (a read or write outside a buffer, a signed overflow, a conversion out
  of range). Buffers are lists; every access is checked.
\<close>

definition load :: "'a list \<Rightarrow> int \<Rightarrow> 'a option" where
  "load xs i = (if 0 \<le> i \<and> i < int (length xs) then Some (xs ! nat i) else None)"

definition store :: "'a list \<Rightarrow> int \<Rightarrow> 'a \<Rightarrow> 'a list option" where
  "store xs i v = (if 0 \<le> i \<and> i < int (length xs) then Some (xs[nat i := v]) else None)"

text \<open>The result of an \<open>int64_t\<close> operation: undefined when it overflows.\<close>

definition i64 :: "int \<Rightarrow> int option" where
  "i64 v = (if in_int64 v then Some v else None)"

text \<open>\<open>memcpy(dst, src, n * sizeof(elem))\<close> for \<open>n\<close> elements.\<close>

definition memcpy_el :: "'a list \<Rightarrow> 'a list \<Rightarrow> int \<Rightarrow> 'a list option" where
  "memcpy_el dst src n =
     (if 0 \<le> n \<and> nat n \<le> length src \<and> nat n \<le> length dst
      then Some (take (nat n) src @ drop (nat n) dst) else None)"

text \<open>
  \<open>for (i = lo; i < n; i++) body\<close>, the loop state passed through the body.
  \<open>for_loop\<close> is the plain loop; in \<open>for_loop_ret\<close> the body may leave the function
  with \<open>return\<close> (\<open>Inl\<close> the returned value).
\<close>

function for_loop :: "int \<Rightarrow> int \<Rightarrow> (int \<Rightarrow> 's \<Rightarrow> 's option) \<Rightarrow> 's \<Rightarrow> 's option" where
  "for_loop i n body s =
     (if i < n then (case body i s of None \<Rightarrow> None | Some s' \<Rightarrow> for_loop (i + 1) n body s')
      else Some s)"
  by pat_completeness auto
termination
  by (relation "measure (\<lambda>(i, n, body, s). nat (n - i))") auto

declare for_loop.simps [simp del]

function for_loop_ret ::
  "int \<Rightarrow> int \<Rightarrow> (int \<Rightarrow> 's \<Rightarrow> ('r + 's) option) \<Rightarrow> 's \<Rightarrow> ('r + 's) option" where
  "for_loop_ret i n body s =
     (if i < n then
        (case body i s of
           None \<Rightarrow> None
         | Some (Inl r) \<Rightarrow> Some (Inl r)
         | Some (Inr s') \<Rightarrow> for_loop_ret (i + 1) n body s')
      else Some (Inr s))"
  by pat_completeness auto
termination
  by (relation "measure (\<lambda>(i, n, body, s). nat (n - i))") auto

declare for_loop_ret.simps [simp del]

section \<open>The runtime state: error slot and heap\<close>

text \<open>
  \<open>g_error_message\<close> is the global of \<open>cortex.c\<close>. The heap is abstract: \<open>alloc_plan\<close>
  lists the outcomes of the coming calls of \<open>malloc\<close> and \<open>calloc\<close> (an exhausted plan
  means no memory is left), and \<open>live_blocks\<close> counts the blocks allocated and not yet
  freed. \<open>strdup\<close> in \<open>cortex_set_error\<close> is taken to return a copy of the message.
\<close>

record runtime =
  g_error_message :: "string option"
  alloc_plan :: "bool list"
  live_blocks :: int

definition c_free :: "runtime \<Rightarrow> runtime" where
  "c_free st = st\<lparr>live_blocks := live_blocks st - 1\<rparr>"

definition cortex_set_error :: "string \<Rightarrow> runtime \<Rightarrow> runtime" where
  "cortex_set_error message st =
     (let st1 = (if g_error_message st \<noteq> None then c_free st else st)
      in st1\<lparr>g_error_message := Some message, live_blocks := live_blocks st1 + 1\<rparr>)"

definition cortex_get_error :: "runtime \<Rightarrow> string option" where
  "cortex_get_error st = g_error_message st"

definition cortex_clear_error :: "runtime \<Rightarrow> runtime" where
  "cortex_clear_error st =
     (if g_error_message st \<noteq> None then (c_free st)\<lparr>g_error_message := None\<rparr> else st)"

text \<open>\<open>malloc\<close> and \<open>calloc\<close> proper: the next outcome of the plan.\<close>

definition c_alloc :: "runtime \<Rightarrow> bool \<times> runtime" where
  "c_alloc st =
     (case alloc_plan st of
        True # rest \<Rightarrow> (True, st\<lparr>alloc_plan := rest, live_blocks := live_blocks st + 1\<rparr>)
      | _ \<Rightarrow> (False, st\<lparr>alloc_plan := tl (alloc_plan st)\<rparr>))"

definition cortex_malloc :: "nat \<Rightarrow> runtime \<Rightarrow> bool \<times> runtime" where
  "cortex_malloc bytes st =
     (case c_alloc st of
        (False, st1) \<Rightarrow> (False, cortex_set_error ''Memory allocation failed'' st1)
      | (True, st1) \<Rightarrow> (True, st1))"

text \<open>\<open>calloc(count, size)\<close> fails when \<open>count * size\<close> does not fit \<open>size_t\<close>.\<close>

definition cortex_calloc :: "nat \<Rightarrow> nat \<Rightarrow> runtime \<Rightarrow> bool \<times> runtime" where
  "cortex_calloc count bytes st =
     (case (if count * bytes < 2 ^ 64 then c_alloc st else (False, st)) of
        (False, st1) \<Rightarrow> (False, cortex_set_error ''Memory allocation failed'' st1)
      | (True, st1) \<Rightarrow> (True, st1))"

section \<open>Tensors\<close>

text \<open>
  \<open>cortex_tensor_t\<close>. A pointer to a tensor is a \<open>cortex_tensor_t option\<close>, \<open>None\<close> the
  null pointer. The engine never shares a buffer between two tensors, so a tensor
  carries its buffers by value.
\<close>

record cortex_tensor_t =
  data :: "double list"
  shape :: "int list"
  ndim :: int
  size_el :: int
  requires_grad :: bool

definition sizeof_tensor :: nat where
  "sizeof_tensor = 40"

text \<open>The loop of \<open>cortex_tensor_create\<close> that multiplies the extents into \<open>size\<close>.\<close>

definition shape_product :: "int list \<Rightarrow> int \<Rightarrow> int option" where
  "shape_product sh nd =
     for_loop 0 nd (\<lambda>i sz. do { d \<leftarrow> load sh i; i64 (sz * d) }) 1"

definition cortex_tensor_create ::
  "int list option \<Rightarrow> int \<Rightarrow> runtime \<Rightarrow> (cortex_tensor_t option \<times> runtime) option" where
  "cortex_tensor_create shp nd st =
     (case shp of
        None \<Rightarrow> Some (None, cortex_set_error ''Invalid tensor shape'' st)
      | Some sh \<Rightarrow>
          if nd \<le> 0 then Some (None, cortex_set_error ''Invalid tensor shape'' st)
          else
            (case cortex_malloc sizeof_tensor st of
               (False, st1) \<Rightarrow> Some (None, st1)
             | (True, st1) \<Rightarrow>
                 (case cortex_malloc (nat nd * 8) st1 of
                    (False, st2) \<Rightarrow> Some (None, c_free st2)
                  | (True, st2) \<Rightarrow>
                      do {
                        tshape \<leftarrow> memcpy_el (replicate (nat nd) 0) sh nd;
                        sz \<leftarrow> shape_product sh nd;
                        (case cortex_calloc (nat (sz mod 2 ^ 64)) 8 st2 of
                           (False, st3) \<Rightarrow> Some (None, c_free (c_free st3))
                         | (True, st3) \<Rightarrow>
                             Some (Some \<lparr>data = replicate (nat sz) d_zero, shape = tshape,
                                         ndim = nd, size_el = sz, requires_grad = False\<rparr>, st3))
                      })))"

definition cortex_tensor_free :: "cortex_tensor_t option \<Rightarrow> runtime \<Rightarrow> runtime" where
  "cortex_tensor_free tensor st =
     (case tensor of None \<Rightarrow> st | Some t \<Rightarrow> c_free (c_free (c_free st)))"

definition cortex_tensor_copy ::
  "cortex_tensor_t option \<Rightarrow> runtime \<Rightarrow> (cortex_tensor_t option \<times> runtime) option" where
  "cortex_tensor_copy tensor st =
     (case tensor of
        None \<Rightarrow> Some (None, cortex_set_error ''Cannot copy NULL tensor'' st)
      | Some t \<Rightarrow>
          do {
            (r, st1) \<leftarrow> cortex_tensor_create (Some (shape t)) (ndim t) st;
            (case r of
               None \<Rightarrow> Some (None, st1)
             | Some copy \<Rightarrow>
                 do {
                   d \<leftarrow> memcpy_el (data copy) (data t) (size_el t);
                   Some (Some (copy\<lparr>data := d, requires_grad := requires_grad t\<rparr>), st1)
                 })
          })"

section \<open>Tensor creation functions\<close>

definition cortex_zeros ::
  "int list option \<Rightarrow> int \<Rightarrow> runtime \<Rightarrow> (cortex_tensor_t option \<times> runtime) option" where
  "cortex_zeros shp nd st =
     do {
       (r, st1) \<leftarrow> cortex_tensor_create shp nd st;
       (case r of None \<Rightarrow> Some (None, st1) | Some tensor \<Rightarrow> Some (Some tensor, st1))
     }"

definition cortex_ones ::
  "int list option \<Rightarrow> int \<Rightarrow> runtime \<Rightarrow> (cortex_tensor_t option \<times> runtime) option" where
  "cortex_ones shp nd st =
     do {
       (r, st1) \<leftarrow> cortex_tensor_create shp nd st;
       (case r of
          None \<Rightarrow> Some (None, st1)
        | Some tensor \<Rightarrow>
            do {
              d \<leftarrow> for_loop 0 (size_el tensor) (\<lambda>i d. store d i d_one) (data tensor);
              Some (Some (tensor\<lparr>data := d\<rparr>), st1)
            })
     }"

text \<open>
  \<open>cortex_randn\<close> seeds with the clock and draws from \<open>rand()\<close>; \<open>rnd k\<close> is the
  \<open>k\<close>-th value drawn after the seeding.
\<close>

definition cortex_randn ::
  "libm \<Rightarrow> (nat \<Rightarrow> int) \<Rightarrow> int list option \<Rightarrow> int \<Rightarrow> runtime
     \<Rightarrow> (cortex_tensor_t option \<times> runtime) option" where
  "cortex_randn m rnd shp nd st =
     do {
       (r, st1) \<leftarrow> cortex_tensor_create shp nd st;
       (case r of
          None \<Rightarrow> Some (None, st1)
        | Some tensor \<Rightarrow>
            do {
              d \<leftarrow> for_loop 0 (size_el tensor)
                     (\<lambda>i d.
                        let u1 = ddiv (of_int64 (rnd (2 * nat i))) (of_int64 RAND_MAX);
                            u2 = ddiv (of_int64 (rnd (2 * nat i + 1))) (of_int64 RAND_MAX)
                        in store d i
                             (dmul (c_sqrt m (dmul (dneg d_two) (c_log m u1)))
                                   (c_cos m (dmul (dmul d_two M_PI) u2))))
                     (data tensor);
              Some (Some (tensor\<lparr>data := d\<rparr>), st1)
            })
     }"

definition cortex_eye ::
  "int \<Rightarrow> runtime \<Rightarrow> (cortex_tensor_t option \<times> runtime) option" where
  "cortex_eye n st =
     do {
       (r, st1) \<leftarrow> cortex_tensor_create (Some [n, n]) 2 st;
       (case r of
          None \<Rightarrow> Some (None, st1)
        | Some tensor \<Rightarrow>
            do {
              d \<leftarrow> for_loop 0 n
                     (\<lambda>i d. do { p \<leftarrow> i64 (i * n); k \<leftarrow> i64 (p + i); store d k d_one })
                     (data tensor);
              Some (Some (tensor\<lparr>data := d\<rparr>), st1)
            })
     }"

definition cortex_arange ::
  "double \<Rightarrow> double \<Rightarrow> double \<Rightarrow> runtime \<Rightarrow> (cortex_tensor_t option \<times> runtime) option" where
  "cortex_arange start stop step st =
     do {
       n \<leftarrow> to_int64 (ddiv (dsub stop start) step);
       (r, st1) \<leftarrow> cortex_tensor_create (Some [n]) 1 st;
       (case r of
          None \<Rightarrow> Some (None, st1)
        | Some tensor \<Rightarrow>
            do {
              d \<leftarrow> for_loop 0 n
                     (\<lambda>i d. store d i (dadd start (dmul (of_int64 i) step)))
                     (data tensor);
              Some (Some (tensor\<lparr>data := d\<rparr>), st1)
            })
     }"

section \<open>Basic tensor operations\<close>

definition cortex_tensor_add ::
  "cortex_tensor_t option \<Rightarrow> cortex_tensor_t option \<Rightarrow> runtime
     \<Rightarrow> (cortex_tensor_t option \<times> runtime) option" where
  "cortex_tensor_add a b st =
     (case (a, b) of
        (Some ta, Some tb) \<Rightarrow>
          if size_el ta \<noteq> size_el tb
          then Some (None, cortex_set_error ''Tensor size mismatch for addition'' st)
          else
            do {
              (r, st1) \<leftarrow> cortex_tensor_copy a st;
              (case r of
                 None \<Rightarrow> Some (None, st1)
               | Some result \<Rightarrow>
                   do {
                     d \<leftarrow> for_loop 0 (size_el result)
                            (\<lambda>i d. do { x \<leftarrow> load d i; y \<leftarrow> load (data tb) i;
                                       store d i (dadd x y) })
                            (data result);
                     Some (Some (result\<lparr>data := d\<rparr>), st1)
                   })
            }
      | _ \<Rightarrow> Some (None, cortex_set_error ''Cannot add NULL tensors'' st))"

definition cortex_tensor_subtract ::
  "cortex_tensor_t option \<Rightarrow> cortex_tensor_t option \<Rightarrow> runtime
     \<Rightarrow> (cortex_tensor_t option \<times> runtime) option" where
  "cortex_tensor_subtract a b st =
     (case (a, b) of
        (Some ta, Some tb) \<Rightarrow>
          if size_el ta \<noteq> size_el tb
          then Some (None, cortex_set_error ''Tensor size mismatch for subtraction'' st)
          else
            do {
              (r, st1) \<leftarrow> cortex_tensor_copy a st;
              (case r of
                 None \<Rightarrow> Some (None, st1)
               | Some result \<Rightarrow>
                   do {
                     d \<leftarrow> for_loop 0 (size_el result)
                            (\<lambda>i d. do { x \<leftarrow> load d i; y \<leftarrow> load (data tb) i;
                                       store d i (dsub x y) })
                            (data result);
                     Some (Some (result\<lparr>data := d\<rparr>), st1)
                   })
            }
      | _ \<Rightarrow> Some (None, cortex_set_error ''Cannot subtract NULL tensors'' st))"

definition cortex_tensor_multiply ::
  "cortex_tensor_t option \<Rightarrow> cortex_tensor_t option \<Rightarrow> runtime
     \<Rightarrow> (cortex_tensor_t option \<times> runtime) option" where
  "cortex_tensor_multiply a b st =
     (case (a, b) of
        (Some ta, Some tb) \<Rightarrow>
          if size_el ta \<noteq> size_el tb
          then Some (None, cortex_set_error ''Tensor size mismatch for multiplication'' st)
          else
            do {
              (r, st1) \<leftarrow> cortex_tensor_copy a st;
              (case r of
                 None \<Rightarrow> Some (None, st1)
               | Some result \<Rightarrow>
                   do {
                     d \<leftarrow> for_loop 0 (size_el result)
                            (\<lambda>i d. do { x \<leftarrow> load d i; y \<leftarrow> load (data tb) i;
                                       store d i (dmul x y) })
                            (data result);
                     Some (Some (result\<lparr>data := d\<rparr>), st1)
                   })
            }
      | _ \<Rightarrow> Some (None, cortex_set_error ''Cannot multiply NULL tensors'' st))"

definition cortex_tensor_divide ::
  "cortex_tensor_t option \<Rightarrow> cortex_tensor_t option \<Rightarrow> runtime
     \<Rightarrow> (cortex_tensor_t option \<times> runtime) option" where
  "cortex_tensor_divide a b st =
     (case (a, b) of
        (Some ta, Some tb) \<Rightarrow>
          if size_el ta \<noteq> size_el tb
          then Some (None, cortex_set_error ''Tensor size mismatch for division'' st)
          else
            do {
              (r, st1) \<leftarrow> cortex_tensor_copy a st;
              (case r of
                 None \<Rightarrow> Some (None, st1)
               | Some result \<Rightarrow>
                   do {
                     l \<leftarrow> for_loop_ret 0 (size_el result)
                            (\<lambda>i d. do {
                               y \<leftarrow> load (data tb) i;
                               if deq y d_zero
                               then Some (Inl (None,
                                      cortex_tensor_free (Some (result\<lparr>data := d\<rparr>))
                                        (cortex_set_error ''Division by zero'' st1)))
                               else do { x \<leftarrow> load d i; d' \<leftarrow> store d i (ddiv x y);
                                         Some (Inr d') }
                             })
                            (data result);
                     (case l of
                        Inl ret \<Rightarrow> Some ret
                      | Inr d \<Rightarrow> Some (Some (result\<lparr>data := d\<rparr>), st1))
                   })
            }
      | _ \<Rightarrow> Some (None, cortex_set_error ''Cannot divide NULL tensors'' st))"

definition cortex_tensor_power ::
  "libm \<Rightarrow> cortex_tensor_t option \<Rightarrow> cortex_tensor_t option \<Rightarrow> runtime
     \<Rightarrow> (cortex_tensor_t option \<times> runtime) option" where
  "cortex_tensor_power m a b st =
     (case (a, b) of
        (Some ta, Some tb) \<Rightarrow>
          if size_el ta \<noteq> size_el tb
          then Some (None, cortex_set_error ''Tensor size mismatch for power operation'' st)
          else
            do {
              (r, st1) \<leftarrow> cortex_tensor_copy a st;
              (case r of
                 None \<Rightarrow> Some (None, st1)
               | Some result \<Rightarrow>
                   do {
                     d \<leftarrow> for_loop 0 (size_el result)
                            (\<lambda>i d. do { x \<leftarrow> load d i; y \<leftarrow> load (data tb) i;
                                       store d i (c_pow m x y) })
                            (data result);
                     Some (Some (result\<lparr>data := d\<rparr>), st1)
                   })
            }
      | _ \<Rightarrow> Some (None, cortex_set_error ''Cannot raise NULL tensors to power'' st))"

section \<open>Scalar operations\<close>

definition cortex_tensor_add_scalar ::
  "cortex_tensor_t option \<Rightarrow> double \<Rightarrow> runtime
     \<Rightarrow> (cortex_tensor_t option \<times> runtime) option" where
  "cortex_tensor_add_scalar tensor scalar st =
     (case tensor of
        None \<Rightarrow> Some (None, cortex_set_error ''Cannot add scalar to NULL tensor'' st)
      | Some t \<Rightarrow>
          do {
            (r, st1) \<leftarrow> cortex_tensor_copy tensor st;
            (case r of
               None \<Rightarrow> Some (None, st1)
             | Some result \<Rightarrow>
                 do {
                   d \<leftarrow> for_loop 0 (size_el result)
                          (\<lambda>i d. do { x \<leftarrow> load d i; store d i (dadd x scalar) })
                          (data result);
                   Some (Some (result\<lparr>data := d\<rparr>), st1)
                 })
          })"

definition cortex_tensor_multiply_scalar ::
  "cortex_tensor_t option \<Rightarrow> double \<Rightarrow> runtime
     \<Rightarrow> (cortex_tensor_t option \<times> runtime) option" where
  "cortex_tensor_multiply_scalar tensor scalar st =
     (case tensor of
        None \<Rightarrow> Some (None, cortex_set_error ''Cannot multiply NULL tensor by scalar'' st)
      | Some t \<Rightarrow>
          do {
            (r, st1) \<leftarrow> cortex_tensor_copy tensor st;
            (case r of
               None \<Rightarrow> Some (None, st1)
             | Some result \<Rightarrow>
                 do {
                   d \<leftarrow> for_loop 0 (size_el result)
                          (\<lambda>i d. do { x \<leftarrow> load d i; store d i (dmul x scalar) })
                          (data result);
                   Some (Some (result\<lparr>data := d\<rparr>), st1)
                 })
          })"

section \<open>Matrix operations\<close>

definition cortex_tensor_matmul ::
  "cortex_tensor_t option \<Rightarrow> cortex_tensor_t option \<Rightarrow> runtime
     \<Rightarrow> (cortex_tensor_t option \<times> runtime) option" where
  "cortex_tensor_matmul a b st =
     (case (a, b) of
        (Some ta, Some tb) \<Rightarrow>
          if ndim ta \<noteq> 2 \<or> ndim tb \<noteq> 2
          then Some (None, cortex_set_error ''Matrix multiplication requires 2D tensors'' st)
          else
            do {
              a1 \<leftarrow> load (shape ta) 1; b0 \<leftarrow> load (shape tb) 0;
              if a1 \<noteq> b0
              then Some (None,
                     cortex_set_error ''Matrix dimension mismatch for multiplication'' st)
              else
                do {
                  a0 \<leftarrow> load (shape ta) 0; b1 \<leftarrow> load (shape tb) 1;
                  (r, st1) \<leftarrow> cortex_tensor_create (Some [a0, b1]) 2 st;
                  (case r of
                     None \<Rightarrow> Some (None, st1)
                   | Some result \<Rightarrow>
                       do {
                         r1 \<leftarrow> load (shape result) 1;
                         d \<leftarrow> for_loop 0 a0
                                (\<lambda>i d. for_loop 0 b1
                                   (\<lambda>j d. do {
                                      sum \<leftarrow> for_loop 0 a1
                                               (\<lambda>k sum. do {
                                                  p \<leftarrow> i64 (i * a1); ia \<leftarrow> i64 (p + k);
                                                  q \<leftarrow> i64 (k * b1); ib \<leftarrow> i64 (q + j);
                                                  x \<leftarrow> load (data ta) ia;
                                                  y \<leftarrow> load (data tb) ib;
                                                  Some (dadd sum (dmul x y))
                                                })
                                               d_zero;
                                      p \<leftarrow> i64 (i * r1); ir \<leftarrow> i64 (p + j);
                                      store d ir sum
                                    })
                                   d)
                                (data result);
                         Some (Some (result\<lparr>data := d\<rparr>), st1)
                       })
                }
            }
      | _ \<Rightarrow> Some (None, cortex_set_error ''Cannot multiply NULL tensors'' st))"

definition cortex_tensor_transpose ::
  "cortex_tensor_t option \<Rightarrow> runtime \<Rightarrow> (cortex_tensor_t option \<times> runtime) option" where
  "cortex_tensor_transpose tensor st =
     (case tensor of
        None \<Rightarrow> Some (None, cortex_set_error ''Cannot transpose NULL tensor'' st)
      | Some t \<Rightarrow>
          if ndim t \<noteq> 2
          then Some (None, cortex_set_error ''Transpose requires 2D tensor'' st)
          else
            do {
              t0 \<leftarrow> load (shape t) 0; t1 \<leftarrow> load (shape t) 1;
              (r, st1) \<leftarrow> cortex_tensor_create (Some [t1, t0]) 2 st;
              (case r of
                 None \<Rightarrow> Some (None, st1)
               | Some result \<Rightarrow>
                   do {
                     r1 \<leftarrow> load (shape result) 1;
                     d \<leftarrow> for_loop 0 t0
                            (\<lambda>i d. for_loop 0 t1
                               (\<lambda>j d. do {
                                  p \<leftarrow> i64 (i * t1); it \<leftarrow> i64 (p + j);
                                  q \<leftarrow> i64 (j * r1); ir \<leftarrow> i64 (q + i);
                                  x \<leftarrow> load (data t) it;
                                  store d ir x
                                })
                               d)
                            (data result);
                     Some (Some (result\<lparr>data := d\<rparr>), st1)
                   })
            })"

section \<open>Mathematical functions\<close>

definition cortex_tensor_exp ::
  "libm \<Rightarrow> cortex_tensor_t option \<Rightarrow> runtime
     \<Rightarrow> (cortex_tensor_t option \<times> runtime) option" where
  "cortex_tensor_exp m tensor st =
     (case tensor of
        None \<Rightarrow> Some (None, cortex_set_error ''Cannot compute exp of NULL tensor'' st)
      | Some t \<Rightarrow>
          do {
            (r, st1) \<leftarrow> cortex_tensor_copy tensor st;
            (case r of
               None \<Rightarrow> Some (None, st1)
             | Some result \<Rightarrow>
                 do {
                   d \<leftarrow> for_loop 0 (size_el result)
                          (\<lambda>i d. do { x \<leftarrow> load d i; store d i (c_exp m x) })
                          (data result);
                   Some (Some (result\<lparr>data := d\<rparr>), st1)
                 })
          })"

definition cortex_tensor_log ::
  "libm \<Rightarrow> cortex_tensor_t option \<Rightarrow> runtime
     \<Rightarrow> (cortex_tensor_t option \<times> runtime) option" where
  "cortex_tensor_log m tensor st =
     (case tensor of
        None \<Rightarrow> Some (None, cortex_set_error ''Cannot compute log of NULL tensor'' st)
      | Some t \<Rightarrow>
          do {
            (r, st1) \<leftarrow> cortex_tensor_copy tensor st;
            (case r of
               None \<Rightarrow> Some (None, st1)
             | Some result \<Rightarrow>
                 do {
                   l \<leftarrow> for_loop_ret 0 (size_el result)
                          (\<lambda>i d. do {
                             x \<leftarrow> load d i;
                             if dle x d_zero
                             then Some (Inl (None,
                                    cortex_tensor_free (Some (result\<lparr>data := d\<rparr>))
                                      (cortex_set_error ''Log of non-positive number'' st1)))
                             else do { d' \<leftarrow> store d i (c_log m x); Some (Inr d') }
                           })
                          (data result);
                   (case l of
                      Inl ret \<Rightarrow> Some ret
                    | Inr d \<Rightarrow> Some (Some (result\<lparr>data := d\<rparr>), st1))
                 })
          })"

definition cortex_tensor_sqrt ::
  "libm \<Rightarrow> cortex_tensor_t option \<Rightarrow> runtime
     \<Rightarrow> (cortex_tensor_t option \<times> runtime) option" where
  "cortex_tensor_sqrt m tensor st =
     (case tensor of
        None \<Rightarrow> Some (None, cortex_set_error ''Cannot compute sqrt of NULL tensor'' st)
      | Some t \<Rightarrow>
          do {
            (r, st1) \<leftarrow> cortex_tensor_copy tensor st;
            (case r of
               None \<Rightarrow> Some (None, st1)
             | Some result \<Rightarrow>
                 do {
                   l \<leftarrow> for_loop_ret 0 (size_el result)
                          (\<lambda>i d. do {
                             x \<leftarrow> load d i;
                             if dlt x d_zero
                             then Some (Inl (None,
                                    cortex_tensor_free (Some (result\<lparr>data := d\<rparr>))
                                      (cortex_set_error ''Sqrt of negative number'' st1)))
                             else do { d' \<leftarrow> store d i (c_sqrt m x); Some (Inr d') }
                           })
                          (data result);
                   (case l of
                      Inl ret \<Rightarrow> Some ret
                    | Inr d \<Rightarrow> Some (Some (result\<lparr>data := d\<rparr>), st1))
                 })
          })"

section \<open>Activation functions\<close>

definition cortex_tensor_relu ::
  "libm \<Rightarrow> cortex_tensor_t option \<Rightarrow> runtime
     \<Rightarrow> (cortex_tensor_t option \<times> runtime) option" where
  "cortex_tensor_relu m tensor st =
     (case tensor of
        None \<Rightarrow> Some (None, cortex_set_error ''Cannot compute ReLU of NULL tensor'' st)
      | Some t \<Rightarrow>
          do {
            (r, st1) \<leftarrow> cortex_tensor_copy tensor st;
            (case r of
               None \<Rightarrow> Some (None, st1)
             | Some result \<Rightarrow>
                 do {
                   d \<leftarrow> for_loop 0 (size_el result)
                          (\<lambda>i d. do { x \<leftarrow> load d i; store d i (c_fmax m d_zero x) })
                          (data result);
                   Some (Some (result\<lparr>data := d\<rparr>), st1)
                 })
          })"

definition cortex_tensor_sigmoid ::
  "libm \<Rightarrow> cortex_tensor_t option \<Rightarrow> runtime
     \<Rightarrow> (cortex_tensor_t option \<times> runtime) option" where
  "cortex_tensor_sigmoid m tensor st =
     (case tensor of
        None \<Rightarrow> Some (None, cortex_set_error ''Cannot compute sigmoid of NULL tensor'' st)
      | Some t \<Rightarrow>
          do {
            (r, st1) \<leftarrow> cortex_tensor_copy tensor st;
            (case r of
               None \<Rightarrow> Some (None, st1)
             | Some result \<Rightarrow>
                 do {
                   d \<leftarrow> for_loop 0 (size_el result)
                          (\<lambda>i d. do { x \<leftarrow> load d i; store d i (ddiv d_one (dadd d_one (c_exp m (dneg x)))) })
                          (data result);
                   Some (Some (result\<lparr>data := d\<rparr>), st1)
                 })
          })"

definition cortex_tensor_tanh ::
  "libm \<Rightarrow> cortex_tensor_t option \<Rightarrow> runtime
     \<Rightarrow> (cortex_tensor_t option \<times> runtime) option" where
  "cortex_tensor_tanh m tensor st =
     (case tensor of
        None \<Rightarrow> Some (None, cortex_set_error ''Cannot compute tanh of NULL tensor'' st)
      | Some t \<Rightarrow>
          do {
            (r, st1) \<leftarrow> cortex_tensor_copy tensor st;
            (case r of
               None \<Rightarrow> Some (None, st1)
             | Some result \<Rightarrow>
                 do {
                   d \<leftarrow> for_loop 0 (size_el result)
                          (\<lambda>i d. do { x \<leftarrow> load d i; store d i (c_tanh m x) })
                          (data result);
                   Some (Some (result\<lparr>data := d\<rparr>), st1)
                 })
          })"

definition cortex_tensor_softmax ::
  "libm \<Rightarrow> cortex_tensor_t option \<Rightarrow> runtime
     \<Rightarrow> (cortex_tensor_t option \<times> runtime) option" where
  "cortex_tensor_softmax m tensor st =
     (case tensor of
        None \<Rightarrow> Some (None, cortex_set_error ''Cannot compute softmax of NULL tensor'' st)
      | Some t \<Rightarrow>
          do {
            (r, st1) \<leftarrow> cortex_tensor_copy tensor st;
            (case r of
               None \<Rightarrow> Some (None, st1)
             | Some result \<Rightarrow>
                 do {
                   x0 \<leftarrow> load (data result) 0;
                   max_val \<leftarrow> for_loop 1 (size_el result)
                                (\<lambda>i max_val. do {
                                   x \<leftarrow> load (data result) i;
                                   Some (if dgt x max_val then x else max_val)
                                 })
                                x0;
                   (d1, sum) \<leftarrow> for_loop 0 (size_el result)
                                  (\<lambda>i (d, sum). do {
                                     x \<leftarrow> load d i;
                                     d' \<leftarrow> store d i (c_exp m (dsub x max_val));
                                     e \<leftarrow> load d' i;
                                     Some (d', dadd sum e)
                                   })
                                  (data result, d_zero);
                   d2 \<leftarrow> for_loop 0 (size_el result)
                           (\<lambda>i d. do { x \<leftarrow> load d i; store d i (ddiv x sum) })
                           d1;
                   Some (Some (result\<lparr>data := d2\<rparr>), st1)
                 })
          })"

section \<open>Statistical functions\<close>

definition cortex_tensor_sum ::
  "cortex_tensor_t option \<Rightarrow> runtime \<Rightarrow> (double \<times> runtime) option" where
  "cortex_tensor_sum tensor st =
     (case tensor of
        None \<Rightarrow> Some (d_zero, cortex_set_error ''Cannot compute sum of NULL tensor'' st)
      | Some t \<Rightarrow>
          do {
            sum \<leftarrow> for_loop 0 (size_el t)
                     (\<lambda>i sum. do { x \<leftarrow> load (data t) i; Some (dadd sum x) })
                     d_zero;
            Some (sum, st)
          })"

definition cortex_tensor_mean ::
  "cortex_tensor_t option \<Rightarrow> runtime \<Rightarrow> (double \<times> runtime) option" where
  "cortex_tensor_mean tensor st =
     (case tensor of
        None \<Rightarrow> Some (d_zero, cortex_set_error ''Cannot compute mean of NULL tensor'' st)
      | Some t \<Rightarrow>
          do {
            (s, st1) \<leftarrow> cortex_tensor_sum tensor st;
            Some (ddiv s (of_int64 (size_el t)), st1)
          })"

definition cortex_tensor_std ::
  "libm \<Rightarrow> cortex_tensor_t option \<Rightarrow> runtime \<Rightarrow> (double \<times> runtime) option" where
  "cortex_tensor_std m tensor st =
     (case tensor of
        None \<Rightarrow> Some (d_zero, cortex_set_error ''Cannot compute std of NULL tensor'' st)
      | Some t \<Rightarrow>
          do {
            (mean_val, st1) \<leftarrow> cortex_tensor_mean tensor st;
            sum_sq_diff \<leftarrow> for_loop 0 (size_el t)
                             (\<lambda>i sum_sq_diff. do {
                                x \<leftarrow> load (data t) i;
                                let diff = dsub x mean_val
                                in Some (dadd sum_sq_diff (dmul diff diff))
                              })
                             d_zero;
            Some (c_sqrt m (ddiv sum_sq_diff (of_int64 (size_el t))), st1)
          })"

definition cortex_tensor_var ::
  "libm \<Rightarrow> cortex_tensor_t option \<Rightarrow> runtime \<Rightarrow> (double \<times> runtime) option" where
  "cortex_tensor_var m tensor st =
     (case tensor of
        None \<Rightarrow> Some (d_zero, cortex_set_error ''Cannot compute variance of NULL tensor'' st)
      | Some t \<Rightarrow>
          do {
            (std_val, st1) \<leftarrow> cortex_tensor_std m tensor st;
            Some (dmul std_val std_val, st1)
          })"

definition cortex_tensor_min ::
  "cortex_tensor_t option \<Rightarrow> runtime \<Rightarrow> (double \<times> runtime) option" where
  "cortex_tensor_min tensor st =
     (case tensor of
        None \<Rightarrow> Some (d_zero, cortex_set_error ''Cannot compute min of NULL or empty tensor'' st)
      | Some t \<Rightarrow>
          if size_el t = 0
          then Some (d_zero, cortex_set_error ''Cannot compute min of NULL or empty tensor'' st)
          else
            do {
              x0 \<leftarrow> load (data t) 0;
              min_val \<leftarrow> for_loop 1 (size_el t)
                           (\<lambda>i min_val. do {
                              x \<leftarrow> load (data t) i;
                              Some (if dlt x min_val then x else min_val)
                            })
                           x0;
              Some (min_val, st)
            })"

definition cortex_tensor_max ::
  "cortex_tensor_t option \<Rightarrow> runtime \<Rightarrow> (double \<times> runtime) option" where
  "cortex_tensor_max tensor st =
     (case tensor of
        None \<Rightarrow> Some (d_zero, cortex_set_error ''Cannot compute max of NULL or empty tensor'' st)
      | Some t \<Rightarrow>
          if size_el t = 0
          then Some (d_zero, cortex_set_error ''Cannot compute max of NULL or empty tensor'' st)
          else
            do {
              x0 \<leftarrow> load (data t) 0;
              max_val \<leftarrow> for_loop 1 (size_el t)
                           (\<lambda>i max_val. do {
                              x \<leftarrow> load (data t) i;
                              Some (if dgt x max_val then x else max_val)
                            })
                           x0;
              Some (max_val, st)
            })"

section \<open>Loss functions\<close>

definition cortex_mse_loss ::
  "cortex_tensor_t option \<Rightarrow> cortex_tensor_t option \<Rightarrow> runtime
     \<Rightarrow> (double \<times> runtime) option" where
  "cortex_mse_loss predictions targets st =
     (case (predictions, targets) of
        (Some tp, Some tt) \<Rightarrow>
          if size_el tp \<noteq> size_el tt
          then Some (d_zero, cortex_set_error ''Tensor size mismatch for MSE loss'' st)
          else
            do {
              sum_sq_diff \<leftarrow> for_loop 0 (size_el tp)
                               (\<lambda>i sum_sq_diff. do {
                                  p \<leftarrow> load (data tp) i; t \<leftarrow> load (data tt) i;
                                  let diff = dsub p t
                                  in Some (dadd sum_sq_diff (dmul diff diff))
                                })
                               d_zero;
              Some (ddiv sum_sq_diff (of_int64 (size_el tp)), st)
            }
      | _ \<Rightarrow> Some (d_zero, cortex_set_error ''Cannot compute MSE loss of NULL tensors'' st))"

definition cortex_cross_entropy_loss ::
  "libm \<Rightarrow> cortex_tensor_t option \<Rightarrow> cortex_tensor_t option \<Rightarrow> runtime
     \<Rightarrow> (double \<times> runtime) option" where
  "cortex_cross_entropy_loss m predictions targets st =
     (case (predictions, targets) of
        (Some tp, Some tt) \<Rightarrow>
          if size_el tp \<noteq> size_el tt
          then Some (d_zero,
                 cortex_set_error ''Tensor size mismatch for cross-entropy loss'' st)
          else
            do {
              loss \<leftarrow> for_loop 0 (size_el tp)
                        (\<lambda>i loss. do {
                           p \<leftarrow> load (data tp) i;
                           if dgt p d_zero
                           then do { t \<leftarrow> load (data tt) i;
                                     Some (dsub loss (dmul t (c_log m p))) }
                           else Some loss
                         })
                        d_zero;
              Some (ddiv loss (of_int64 (size_el tp)), st)
            }
      | _ \<Rightarrow> Some (d_zero,
               cortex_set_error ''Cannot compute cross-entropy loss of NULL tensors'' st))"

definition cortex_binary_cross_entropy_loss ::
  "libm \<Rightarrow> cortex_tensor_t option \<Rightarrow> cortex_tensor_t option \<Rightarrow> runtime
     \<Rightarrow> (double \<times> runtime) option" where
  "cortex_binary_cross_entropy_loss m predictions targets st =
     (case (predictions, targets) of
        (Some tp, Some tt) \<Rightarrow>
          if size_el tp \<noteq> size_el tt
          then Some (d_zero,
                 cortex_set_error ''Tensor size mismatch for binary cross-entropy loss'' st)
          else
            do {
              loss \<leftarrow> for_loop 0 (size_el tp)
                        (\<lambda>i loss. do {
                           p0 \<leftarrow> load (data tp) i;
                           t \<leftarrow> load (data tt) i;
                           let p = c_fmax m d_1em8 (c_fmin m (dsub d_one d_1em8) p0)
                           in Some (dsub loss
                                (dadd (dmul t (c_log m p))
                                      (dmul (dsub d_one t) (c_log m (dsub d_one p)))))
                         })
                        d_zero;
              Some (ddiv loss (of_int64 (size_el tp)), st)
            }
      | _ \<Rightarrow> Some (d_zero,
               cortex_set_error
                 ''Cannot compute binary cross-entropy loss of NULL tensors'' st))"

section \<open>Well-formed tensors and available memory\<close>

text \<open>
  The invariant that \<open>cortex_tensor_create\<close> establishes and every operation keeps:
  \<open>ndim\<close> positive, \<open>shape\<close> of \<open>ndim\<close> extents, \<open>size\<close> their product as the
  creation loop computes it, and \<open>data\<close> a buffer of \<open>size\<close> elements that
  \<open>calloc\<close> can provide.
\<close>

definition wf_tensor :: "cortex_tensor_t \<Rightarrow> bool" where
  "wf_tensor t =
     (0 < ndim t \<and> length (shape t) = nat (ndim t) \<and>
      shape_product (shape t) (ndim t) = Some (size_el t) \<and>
      0 \<le> size_el t \<and> size_el t < 2 ^ 61 \<and> length (data t) = nat (size_el t))"

text \<open>The next \<open>n\<close> allocations succeed.\<close>

definition alloc_ok :: "nat \<Rightarrow> runtime \<Rightarrow> bool" where
  "alloc_ok n st = (take n (alloc_plan st) = replicate n True)"

text \<open>The state after \<open>n\<close> successful allocations.\<close>

definition allocated :: "nat \<Rightarrow> runtime \<Rightarrow> runtime" where
  "allocated n st =
     st\<lparr>alloc_plan := drop n (alloc_plan st), live_blocks := live_blocks st + int n\<rparr>"

section \<open>The rule of the error slot\<close>

text \<open>
  What a call may do to \<open>g_error_message\<close>, given the messages that the operation and the
  functions it calls can record. A tensor-returning operation fails by returning the
  null pointer: then the slot holds one of these messages; when it returns a tensor the
  slot is as before the call. A scalar-returning operation has no failure value of its
  own; it fails on the paths that its guards select (\<open>fails\<close>): there the slot holds one
  of the messages, and on every other path the whole state is as before the call.
\<close>

definition holds_message :: "string list \<Rightarrow> runtime \<Rightarrow> bool" where
  "holds_message msgs st =
     (case g_error_message st of None \<Rightarrow> False | Some msg \<Rightarrow> msg \<in> set msgs)"

definition slot_rule ::
  "string list \<Rightarrow> runtime \<Rightarrow> (cortex_tensor_t option \<times> runtime) option \<Rightarrow> bool" where
  "slot_rule msgs st res =
     (case res of
        None \<Rightarrow> True
      | Some (None, st') \<Rightarrow> holds_message msgs st'
      | Some (Some t, st') \<Rightarrow> g_error_message st' = g_error_message st)"

definition scalar_slot_rule ::
  "string list \<Rightarrow> bool \<Rightarrow> runtime \<Rightarrow> (double \<times> runtime) option \<Rightarrow> bool" where
  "scalar_slot_rule msgs fails st res =
     (case res of
        None \<Rightarrow> True
      | Some (v, st') \<Rightarrow> if fails then holds_message msgs st' else st' = st)"

text \<open>The messages of \<open>cortex_tensor_create\<close> and of \<open>cortex_tensor_copy\<close>.\<close>

definition create_messages :: "string list" where
  "create_messages = [''Invalid tensor shape'', ''Memory allocation failed'']"

definition copy_messages :: "string list" where
  "copy_messages = ''Cannot copy NULL tensor'' # create_messages"

text \<open>The guards of the scalar-returning operations.\<close>

definition absent :: "cortex_tensor_t option \<Rightarrow> bool" where
  "absent tensor = (tensor = None)"

definition empty_tensor :: "cortex_tensor_t option \<Rightarrow> bool" where
  "empty_tensor tensor = (case tensor of None \<Rightarrow> False | Some t \<Rightarrow> size_el t = 0)"

definition size_differ :: "cortex_tensor_t option \<Rightarrow> cortex_tensor_t option \<Rightarrow> bool" where
  "size_differ a b =
     (case (a, b) of (Some ta, Some tb) \<Rightarrow> size_el ta \<noteq> size_el tb | _ \<Rightarrow> False)"

text \<open>A scalar-returning call that leaves the whole state as it was.\<close>

definition state_kept :: "runtime \<Rightarrow> (double \<times> runtime) option \<Rightarrow> bool" where
  "state_kept st res = (case res of None \<Rightarrow> True | Some (v, st') \<Rightarrow> st' = st)"

text \<open>A call fails with the given message: it returns the null pointer and leaves the
  message in the slot.\<close>

definition fails_with ::
  "string \<Rightarrow> (cortex_tensor_t option \<times> runtime) option \<Rightarrow> bool" where
  "fails_with msg res =
     (case res of Some (None, st') \<Rightarrow> g_error_message st' = Some msg | _ \<Rightarrow> False)"

section \<open>Sample tensors and states\<close>

text \<open>A one-axis tensor over the given elements, as \<open>cortex_tensor_create\<close> shapes it.\<close>

definition vec :: "double list \<Rightarrow> cortex_tensor_t" where
  "vec xs = \<lparr>data = xs, shape = [int (length xs)], ndim = 1,
             size_el = int (length xs), requires_grad = False\<rparr>"

text \<open>A tensor with the given axes over the given elements.\<close>

definition tensor_of :: "int list \<Rightarrow> double list \<Rightarrow> cortex_tensor_t" where
  "tensor_of sh xs = \<lparr>data = xs, shape = sh, ndim = int (length sh),
                      size_el = int (length xs), requires_grad = False\<rparr>"

text \<open>The double \<open>9007199254740992.0\<close>, that is \<open>2^53\<close>.\<close>

definition d_2p53 :: double where
  "d_2p53 = Finite False (2 ^ 52) 1"

text \<open>A state with an empty error slot in which the next \<open>n\<close> allocations succeed.\<close>

definition fresh :: "nat \<Rightarrow> runtime" where
  "fresh n = \<lparr>g_error_message = None, alloc_plan = replicate n True, live_blocks = 0\<rparr>"

text \<open>
  The values of \<open>exp\<close> that the examples of \<open>softmax\<close> need, as glibc gives them:
  \<open>exp(0.0) = exp(-0.0) = 1.0\<close> and \<open>exp(-1.0) = 0.36787944117144233\<close>, the binary64
  nearest to \<open>1/e\<close>. The examples call \<open>exp\<close> at no other argument and no other function
  of the library; what they do not call is NaN here.
\<close>

definition exp_sample :: "double \<Rightarrow> double" where
  "exp_sample x =
     (if deq x d_zero then d_one
      else if deq x (dneg d_one) then Finite False 6627126856707896 (- 54)
      else NaN)"

definition libm_sample :: libm where
  "libm_sample =
     \<lparr>c_exp = exp_sample, c_log = (\<lambda>x. NaN), c_sqrt = (\<lambda>x. NaN), c_tanh = (\<lambda>x. NaN),
      c_cos = (\<lambda>x. NaN), c_pow = (\<lambda>x y. NaN), c_fmax = (\<lambda>x y. NaN),
      c_fmin = (\<lambda>x y. NaN)\<rparr>"

text \<open>The doubles \<open>0.5\<close>, \<open>0.2689414213699951\<close> and \<open>0.7310585786300049\<close>.\<close>

definition d_half :: double where
  "d_half = Finite False (2 ^ 52) (- 53)"

definition d_0269 :: double where
  "d_0269 = Finite False 4844817940265606 (- 54)"

definition d_0731 :: double where
  "d_0731 = Finite False 6584790284608189 (- 53)"

section \<open>Derived operations and closed forms\<close>

text \<open>\<open>subtract(add(a, b), b)\<close>: the sum is passed on to the subtraction.\<close>

definition subtract_add ::
  "cortex_tensor_t option \<Rightarrow> cortex_tensor_t option \<Rightarrow> runtime
     \<Rightarrow> (cortex_tensor_t option \<times> runtime) option" where
  "subtract_add a b st =
     do { (s, st1) \<leftarrow> cortex_tensor_add a b st; cortex_tensor_subtract s b st1 }"




text \<open>A result, if it is a tensor, has the axes, size and gradient flag of \<open>t\<close>.\<close>

definition keeps_layout ::
  "cortex_tensor_t \<Rightarrow> (cortex_tensor_t option \<times> runtime) option \<Rightarrow> bool" where
  "keeps_layout t res =
     (case res of
        Some (Some r, st') \<Rightarrow>
          ndim r = ndim t \<and> shape r = shape t \<and> size_el r = size_el t \<and>
          requires_grad r = requires_grad t
      | _ \<Rightarrow> True)"

section \<open>Reshape\<close>

text \<open>
  Modelled from the spec: \<open>cortex_tensor_reshape\<close> is declared in \<open>cortex.h\<close> and has
  no definition in \<open>cortex.c\<close>. The specification says: valid only if the product of
  the new shape's extents equals \<open>t.size\<close>, else \<open>ShapeMismatch\<close>; the result has a fresh
  buffer with the data copied and the new axis layout, the elements in the same order.
  The gradient flag travels with the data, as in \<open>cortex_tensor_copy\<close>; the
  specification does not speak of it.
\<close>

datatype error_kind =
  NullOperand | InvalidArgument | AllocationError | ShapeMismatch | InvalidRank
  | DivisionByZero | DomainError | EmptyOrNullTensor | InvalidRange


section \<open>Evaluation and loop rules\<close>

lemma nbits_0: "nbits 0 = 0" by (simp add: nbits.simps)
lemma nbits_1: "nbits (Suc 0) = 1" by (simp add: nbits.simps)
lemma nbits_numeral: "nbits (numeral k) = 1 + nbits (numeral k div 2)"
  by (subst nbits.simps) simp

lemma load_Some: "0 \<le> i \<Longrightarrow> i < int (length xs) \<Longrightarrow> load xs i = Some (xs ! nat i)"
  by (simp add: load_def)

lemma store_Some: "0 \<le> i \<Longrightarrow> i < int (length xs) \<Longrightarrow> store xs i v = Some (xs[nat i := v])"
  by (simp add: store_def)

lemma for_loop_step:
  "i < n \<Longrightarrow> for_loop i n body s =
     (case body i s of None \<Rightarrow> None | Some s' \<Rightarrow> for_loop (i + 1) n body s')"
  by (subst for_loop.simps) simp

lemma for_loop_done: "\<not> i < n \<Longrightarrow> for_loop i n body s = Some s"
  by (subst for_loop.simps) simp

lemma for_loop_ret_step:
  "i < n \<Longrightarrow> for_loop_ret i n body s =
     (case body i s of None \<Rightarrow> None | Some (Inl r) \<Rightarrow> Some (Inl r)
      | Some (Inr s') \<Rightarrow> for_loop_ret (i + 1) n body s')"
  by (subst for_loop_ret.simps) simp

lemma for_loop_ret_done: "\<not> i < n \<Longrightarrow> for_loop_ret i n body s = Some (Inr s)"
  by (subst for_loop_ret.simps) simp

lemma for_loop_inv:
  assumes "I i s"
    and "\<And>j s. i \<le> j \<Longrightarrow> j < n \<Longrightarrow> I j s \<Longrightarrow> \<exists>s'. body j s = Some s' \<and> I (j + 1) s'"
    and "i \<le> n"
  shows "\<exists>s'. for_loop i n body s = Some s' \<and> I n s'"
  using assms
proof (induction "nat (n - i)" arbitrary: i s)
  case 0
  then have "i = n" by simp
  with 0 show ?case by (simp add: for_loop_done)
next
  case (Suc k)
  then have lt: "i < n" by linarith
  from Suc.prems(2)[OF order_refl lt Suc.prems(1)]
  obtain s1 where b: "body i s = Some s1" and I1: "I (i + 1) s1" by blast
  have "\<exists>s'. for_loop (i + 1) n body s1 = Some s' \<and> I n s'"
  proof (rule Suc.hyps(1))
    show "k = nat (n - (i + 1))" using Suc.hyps(2) by linarith
    show "I (i + 1) s1" by (rule I1)
    show "i + 1 \<le> n" using lt by simp
    fix j s assume "i + 1 \<le> j" "j < n" "I j s"
    then show "\<exists>s'. body j s = Some s' \<and> I (j + 1) s'"
      using Suc.prems(2)[of j s] by simp
  qed
  then show ?case by (simp add: for_loop_step[OF lt] b)
qed

lemma for_loop_ret_inv:
  assumes "I i s"
    and "\<And>j s. i \<le> j \<Longrightarrow> j < n \<Longrightarrow> I j s \<Longrightarrow>
           (\<exists>s'. body j s = Some (Inr s') \<and> I (j + 1) s') \<or> (\<exists>r. body j s = Some (Inl r) \<and> Q r)"
    and "i \<le> n"
  shows "\<exists>res. for_loop_ret i n body s = Some res \<and>
           (case res of Inl r \<Rightarrow> Q r | Inr s' \<Rightarrow> I n s')"
  using assms
proof (induction "nat (n - i)" arbitrary: i s)
  case 0
  then have "i = n" by simp
  with 0 show ?case by (simp add: for_loop_ret_done)
next
  case (Suc k)
  then have lt: "i < n" by linarith
  from Suc.prems(2)[OF order_refl lt Suc.prems(1)]
  consider s1 where "body i s = Some (Inr s1)" "I (i + 1) s1"
    | r where "body i s = Some (Inl r)" "Q r" by blast
  then show ?case
  proof cases
    case 1
    have "\<exists>res. for_loop_ret (i + 1) n body s1 = Some res \<and>
            (case res of Inl r \<Rightarrow> Q r | Inr s' \<Rightarrow> I n s')"
    proof (rule Suc.hyps(1))
      show "k = nat (n - (i + 1))" using Suc.hyps(2) by linarith
      show "I (i + 1) s1" by (rule 1)
      show "i + 1 \<le> n" using lt by simp
      fix j s assume "i + 1 \<le> j" "j < n" "I j s"
      then show "(\<exists>s'. body j s = Some (Inr s') \<and> I (j + 1) s') \<or>
                 (\<exists>r. body j s = Some (Inl r) \<and> Q r)"
        using Suc.prems(2)[of j s] by simp
    qed
    then show ?thesis by (simp add: for_loop_ret_step[OF lt] 1)
  next
    case 2
    then show ?thesis by (simp add: for_loop_ret_step[OF lt])
  qed
qed

lemma for_loop_ret_Inl:
  "for_loop_ret i n body s = Some (Inl r) \<Longrightarrow> \<exists>j s'. body j s' = Some (Inl r)"
proof (induction i n body s rule: for_loop_ret.induct)
  case (1 i n body s)
  show ?case
  proof (cases "i < n")
    case True
    show ?thesis
    proof (cases "body i s")
      case None
      with True "1.prems" show ?thesis by (simp add: for_loop_ret_step)
    next
      case (Some v)
      show ?thesis
      proof (cases v)
        case (Inl r')
        with True Some "1.prems" have "r' = r" by (simp add: for_loop_ret_step)
        with Some Inl show ?thesis by blast
      next
        case (Inr s1)
        with True Some "1.prems" have "for_loop_ret (i + 1) n body s1 = Some (Inl r)"
          by (simp add: for_loop_ret_step)
        with "1.IH"[OF True Some Inr] show ?thesis by blast
      qed
    qed
  next
    case False
    with "1.prems" show ?thesis by (simp add: for_loop_ret_done)
  qed
qed

lemma alloc_ok_3D:
  "alloc_ok 3 st \<Longrightarrow> \<exists>rest. alloc_plan st = True # True # True # rest"
proof -
  assume a: "alloc_ok 3 st"
  then have "take (Suc (Suc (Suc 0))) (alloc_plan st) = [True, True, True]"
    by (simp add: alloc_ok_def numeral_3_eq_3)
  then show ?thesis
    by (cases "alloc_plan st"; cases "tl (alloc_plan st)"; cases "tl (tl (alloc_plan st))") auto
qed

lemma memcpy_el_all:
  "length src = nat n \<Longrightarrow> length dst = nat n \<Longrightarrow> 0 \<le> n \<Longrightarrow> memcpy_el dst src n = Some src"
  by (simp add: memcpy_el_def)

lemma create_ok:
  assumes "0 < nd" "length sh = nat nd" "shape_product sh nd = Some sz"
    "0 \<le> sz" "sz < 2 ^ 61" "alloc_ok 3 st"
  shows "cortex_tensor_create (Some sh) nd st =
           Some (Some \<lparr>data = replicate (nat sz) d_zero, shape = sh, ndim = nd,
                        size_el = sz, requires_grad = False\<rparr>, allocated 3 st)"
proof -
  from alloc_ok_3D[OF assms(6)] obtain rest where
    plan: "alloc_plan st = True # True # True # rest" by blast
  have szm: "sz mod 18446744073709551616 = sz" using assms(4,5) by simp
  have "nat sz < 2 ^ 61" using assms(4,5) by (simp add: nat_less_iff)
  then have "nat sz * 8 < 2 ^ 61 * 8" by simp
  then have lt: "nat sz * 8 < 2 ^ 64" by simp
  have mc: "memcpy_el (replicate (nat nd) 0) sh nd = Some sh"
    using assms(1,2) by (simp add: memcpy_el_all)
  show ?thesis
    using assms(1) lt
    by (simp add: cortex_tensor_create_def cortex_malloc_def cortex_calloc_def c_alloc_def
        plan mc assms(3) szm allocated_def)
qed

lemma copy_ok:
  assumes "wf_tensor t" "alloc_ok 3 st"
  shows "cortex_tensor_copy (Some t) st = Some (Some t, allocated 3 st)"
proof -
  from assms(1) have c: "cortex_tensor_create (Some (shape t)) (ndim t) st =
      Some (Some \<lparr>data = replicate (nat (size_el t)) d_zero, shape = shape t, ndim = ndim t,
                   size_el = size_el t, requires_grad = False\<rparr>, allocated 3 st)"
    by (intro create_ok) (simp_all add: wf_tensor_def assms(2))
  have mc: "memcpy_el (replicate (nat (size_el t)) d_zero) (data t) (size_el t) = Some (data t)"
    using assms(1) by (simp add: memcpy_el_all wf_tensor_def)
  show ?thesis by (simp add: cortex_tensor_copy_def c mc)
qed

text \<open>Without assumption on memory: the outcome of create / copy.\<close>

lemma create_err:
  "cortex_tensor_create shp nd st = Some (r, st') \<Longrightarrow>
     (r = None \<longrightarrow> g_error_message st' = Some ''Invalid tensor shape'' \<or>
                    g_error_message st' = Some ''Memory allocation failed'') \<and>
     (r \<noteq> None \<longrightarrow> g_error_message st' = g_error_message st)"
  by (auto simp: cortex_tensor_create_def cortex_malloc_def cortex_calloc_def c_alloc_def
      cortex_set_error_def c_free_def Let_def
      split: option.splits list.splits bool.splits if_splits prod.splits Option.bind_splits)

lemma map_loop:
  assumes "length d = nat n" "0 \<le> n"
  shows "for_loop 0 n (\<lambda>i d. do { x \<leftarrow> load d i; store d i (f x) }) d = Some (map f d)"
proof -
  let ?I = "\<lambda>j s. 0 \<le> j \<and> length s = nat n \<and>
                (\<forall>k<nat n. s ! k = (if k < nat j then f (d ! k) else d ! k))"
  have "\<exists>s'. for_loop 0 n (\<lambda>i d. do { x \<leftarrow> load d i; store d i (f x) }) d = Some s' \<and> ?I n s'"
  proof (rule for_loop_inv[where I = "?I"])
    show "?I 0 d" using assms by simp
    show "0 \<le> n" by (rule assms)
    fix j s assume "0 \<le> j" and jn: "j < n" and I: "?I j s"
    then have ld: "load s j = Some (s ! nat j)" by (simp add: load_def)
    have st: "store s j (f (s ! nat j)) = Some (s[nat j := f (s ! nat j)])"
      using \<open>0 \<le> j\<close> jn I by (simp add: store_def)
    have sj: "s ! nat j = d ! nat j" using I jn \<open>0 \<le> j\<close> by simp
    have "?I (j + 1) (s[nat j := f (s ! nat j)])"
      using I jn \<open>0 \<le> j\<close> sj by (auto simp: nth_list_update nat_add_distrib)
    then show "\<exists>s'. (do { x \<leftarrow> load s j; store s j (f x) }) = Some s' \<and> ?I (j + 1) s'"
      by (simp add: ld st)
  qed
  then obtain s' where r: "for_loop 0 n (\<lambda>i d. do { x \<leftarrow> load d i; store d i (f x) }) d = Some s'"
    and I: "?I n s'" by blast
  have "s' = map f d"
    by (rule nth_equalityI) (use I assms in auto)
  with r show ?thesis by simp
qed

lemma zip_loop:
  assumes "length d = nat n" "length b = nat n" "0 \<le> n"
  shows "for_loop 0 n (\<lambda>i d. do { x \<leftarrow> load d i; y \<leftarrow> load b i; store d i (f x y) }) d
           = Some (map2 f d b)"
proof -
  let ?body = "\<lambda>i d. do { x \<leftarrow> load d i; y \<leftarrow> load b i; store d i (f x y) }"
  let ?I = "\<lambda>j s. 0 \<le> j \<and> length s = nat n \<and>
                (\<forall>k<nat n. s ! k = (if k < nat j then f (d ! k) (b ! k) else d ! k))"
  have "\<exists>s'. for_loop 0 n ?body d = Some s' \<and> ?I n s'"
  proof (rule for_loop_inv[where I = "?I"])
    show "?I 0 d" using assms by simp
    show "0 \<le> n" by (rule assms)
    fix j s assume "0 \<le> j" and jn: "j < n" and I: "?I j s"
    then have ld: "load s j = Some (s ! nat j)" by (simp add: load_def)
    have lb: "load b j = Some (b ! nat j)" using \<open>0 \<le> j\<close> jn assms by (simp add: load_def)
    have st: "\<And>v. store s j v = Some (s[nat j := v])"
      using \<open>0 \<le> j\<close> jn I by (simp add: store_def)
    have sj: "s ! nat j = d ! nat j" using I jn \<open>0 \<le> j\<close> by simp
    have "?I (j + 1) (s[nat j := f (s ! nat j) (b ! nat j)])"
      using I jn \<open>0 \<le> j\<close> sj by (auto simp: nth_list_update nat_add_distrib)
    then show "\<exists>s'. ?body j s = Some s' \<and> ?I (j + 1) s'"
      by (simp add: ld lb st)
  qed
  then obtain s' where r: "for_loop 0 n ?body d = Some s'" and I: "?I n s'" by blast
  have "s' = map2 f d b"
    by (rule nth_equalityI) (use I assms in auto)
  with r show ?thesis by simp
qed

lemma cortex_tensor_free_Some [simp]:
  "cortex_tensor_free (Some t) st = c_free (c_free (c_free st))"
  by (simp add: cortex_tensor_free_def)

lemma div_loop:
  assumes "length d = nat n" "length b = nat n" "0 \<le> n"
  shows "for_loop_ret 0 n
           (\<lambda>i d. do { y \<leftarrow> load b i;
                      if deq y d_zero then Some (Inl r)
                      else do { x \<leftarrow> load d i; d' \<leftarrow> store d i (ddiv x y); Some (Inr d') } }) d
         = Some (if \<exists>y\<in>set b. deq y d_zero then Inl r else Inr (map2 ddiv d b))"
proof -
  let ?body = "\<lambda>i d. do { y \<leftarrow> load b i;
                      if deq y d_zero then Some (Inl r)
                      else do { x \<leftarrow> load d i; d' \<leftarrow> store d i (ddiv x y); Some (Inr d') } }"
  let ?I = "\<lambda>j s. 0 \<le> j \<and> length s = nat n \<and> (\<forall>k<nat j. \<not> deq (b ! k) d_zero) \<and>
                (\<forall>k<nat n. s ! k = (if k < nat j then ddiv (d ! k) (b ! k) else d ! k))"
  let ?Q = "\<lambda>r'. r' = r \<and> (\<exists>y\<in>set b. deq y d_zero)"
  have "\<exists>res. for_loop_ret 0 n ?body d = Some res \<and>
          (case res of Inl r' \<Rightarrow> ?Q r' | Inr s' \<Rightarrow> ?I n s')"
  proof (rule for_loop_ret_inv[where I = "?I" and Q = "?Q"])
    show "?I 0 d" using assms by simp
    show "0 \<le> n" by (rule assms)
    fix j s assume j0: "0 \<le> j" and jn: "j < n" and I: "?I j s"
    have lb: "load b j = Some (b ! nat j)" using j0 jn assms by (simp add: load_def)
    have ld: "load s j = Some (s ! nat j)" using j0 jn I by (simp add: load_def)
    have st: "\<And>v. store s j v = Some (s[nat j := v])" using j0 jn I by (simp add: store_def)
    have sj: "s ! nat j = d ! nat j" using I jn j0 by simp
    have mem: "b ! nat j \<in> set b" using j0 jn assms by simp
    show "(\<exists>s'. ?body j s = Some (Inr s') \<and> ?I (j + 1) s') \<or>
          (\<exists>r'. ?body j s = Some (Inl r') \<and> ?Q r')"
    proof (cases "deq (b ! nat j) d_zero")
      case True
      then show ?thesis using mem by (auto simp: lb)
    next
      case False
      have "?I (j + 1) (s[nat j := ddiv (s ! nat j) (b ! nat j)])"
        using I jn j0 sj False by (auto simp: nth_list_update nat_add_distrib less_Suc_eq)
      then show ?thesis using False by (simp add: lb ld st)
    qed
  qed
  then obtain res where r: "for_loop_ret 0 n ?body d = Some res"
    and post: "case res of Inl r' \<Rightarrow> ?Q r' | Inr s' \<Rightarrow> ?I n s'" by blast
  show ?thesis
  proof (cases res)
    case (Inl r')
    with post r show ?thesis by simp
  next
    case (Inr s')
    with post have I: "?I n s'" by simp
    have nz: "\<not> (\<exists>y\<in>set b. deq y d_zero)"
      using I assms by (auto simp: in_set_conv_nth)
    have "s' = map2 ddiv d b"
      by (rule nth_equalityI) (use I assms in auto)
    with r Inr nz show ?thesis by simp
  qed
qed

lemma add_ok:
  assumes "wf_tensor a" "wf_tensor b" "size_el a = size_el b" "alloc_ok 3 st"
  shows "cortex_tensor_add (Some a) (Some b) st =
           Some (Some (a\<lparr>data := map2 dadd (data a) (data b)\<rparr>), allocated 3 st)"
  using assms by (simp add: cortex_tensor_add_def copy_ok zip_loop wf_tensor_def)

lemma subtract_ok:
  assumes "wf_tensor a" "wf_tensor b" "size_el a = size_el b" "alloc_ok 3 st"
  shows "cortex_tensor_subtract (Some a) (Some b) st =
           Some (Some (a\<lparr>data := map2 dsub (data a) (data b)\<rparr>), allocated 3 st)"
  using assms by (simp add: cortex_tensor_subtract_def copy_ok zip_loop wf_tensor_def)

lemma multiply_ok:
  assumes "wf_tensor a" "wf_tensor b" "size_el a = size_el b" "alloc_ok 3 st"
  shows "cortex_tensor_multiply (Some a) (Some b) st =
           Some (Some (a\<lparr>data := map2 dmul (data a) (data b)\<rparr>), allocated 3 st)"
  using assms by (simp add: cortex_tensor_multiply_def copy_ok zip_loop wf_tensor_def)

lemma power_ok:
  assumes "wf_tensor a" "wf_tensor b" "size_el a = size_el b" "alloc_ok 3 st"
  shows "cortex_tensor_power m (Some a) (Some b) st =
           Some (Some (a\<lparr>data := map2 (c_pow m) (data a) (data b)\<rparr>), allocated 3 st)"
  using assms by (simp add: cortex_tensor_power_def copy_ok zip_loop wf_tensor_def)

lemma divide_ok:
  assumes "wf_tensor a" "wf_tensor b" "size_el a = size_el b" "alloc_ok 3 st"
  shows "cortex_tensor_divide (Some a) (Some b) st =
           Some (if \<exists>y\<in>set (data b). deq y d_zero
                 then (None, (cortex_set_error ''Division by zero'' st)
                               \<lparr>alloc_plan := drop 3 (alloc_plan st)\<rparr>)
                 else (Some (a\<lparr>data := map2 ddiv (data a) (data b)\<rparr>), allocated 3 st))"
proof -
  have fin: "c_free (c_free (c_free (cortex_set_error ''Division by zero'' (allocated 3 st))))
      = (cortex_set_error ''Division by zero'' st)\<lparr>alloc_plan := drop 3 (alloc_plan st)\<rparr>"
    by (simp add: c_free_def cortex_set_error_def allocated_def Let_def)
  show ?thesis
    using assms
    by (simp add: cortex_tensor_divide_def copy_ok div_loop wf_tensor_def fin cong: if_cong)
qed

lemma create_SomeD:
  "cortex_tensor_create shp nd st = Some (Some r, st') \<Longrightarrow>
     \<exists>sh tshape sz. shp = Some sh \<and> 0 < nd \<and>
        memcpy_el (replicate (nat nd) 0) sh nd = Some tshape \<and> shape_product sh nd = Some sz \<and>
        r = \<lparr>data = replicate (nat sz) d_zero, shape = tshape, ndim = nd, size_el = sz,
              requires_grad = False\<rparr> \<and>
        g_error_message st' = g_error_message st"
  by (auto simp: cortex_tensor_create_def cortex_malloc_def cortex_calloc_def c_alloc_def
      cortex_set_error_def c_free_def Let_def
      split: option.splits list.splits bool.splits if_splits prod.splits Option.bind_splits)

lemma set_error_message [simp]:
  "g_error_message (cortex_set_error msg st) = Some msg"
  by (simp add: cortex_set_error_def Let_def)

lemma c_free_message [simp]: "g_error_message (c_free st) = g_error_message st"
  by (simp add: c_free_def)

lemma copy_err:
  "cortex_tensor_copy x st = Some (r, st') \<Longrightarrow>
     (r = None \<longrightarrow> g_error_message st' = Some ''Cannot copy NULL tensor'' \<or>
                    g_error_message st' = Some ''Invalid tensor shape'' \<or>
                    g_error_message st' = Some ''Memory allocation failed'') \<and>
     (r \<noteq> None \<longrightarrow> g_error_message st' = g_error_message st)"
  by (auto simp: cortex_tensor_copy_def split: option.splits prod.splits Option.bind_splits
      dest!: create_err)

lemma copy_SomeD:
  assumes "wf_tensor t" "cortex_tensor_copy (Some t) st = Some (Some c, st')"
  shows "c = t"
proof -
  from assms(2) obtain r st1 d where
    cr: "cortex_tensor_create (Some (shape t)) (ndim t) st = Some (Some r, st1)"
    and mc: "memcpy_el (data r) (data t) (size_el t) = Some d"
    and c: "c = r\<lparr>data := d, requires_grad := requires_grad t\<rparr>"
    by (auto simp: cortex_tensor_copy_def split: option.splits prod.splits Option.bind_splits)
  from create_SomeD[OF cr] assms(1) have
    r: "r = \<lparr>data = replicate (nat (size_el t)) d_zero, shape = shape t, ndim = ndim t,
             size_el = size_el t, requires_grad = False\<rparr>"
    by (auto simp: wf_tensor_def memcpy_el_def)
  from mc r assms(1) have "d = data t" by (auto simp: memcpy_el_def wf_tensor_def)
  with c r show ?thesis by simp
qed

lemma div_loop_Inl:
  assumes "for_loop_ret i n
            (\<lambda>i d. do { y \<leftarrow> load b i;
                if c y then Some (Inl (R d))
                else do { x \<leftarrow> load d i; d' \<leftarrow> store d i (f x y); Some (Inr d') } })
            d0 = Some (Inl r)"
  shows "\<exists>d. r = R d"
proof -
  from for_loop_ret_Inl[OF assms] obtain j s' where
    "(do { y \<leftarrow> load b j;
           if c y then Some (Inl (R s'))
           else do { x \<leftarrow> load s' j; d' \<leftarrow> store s' j (f x y); Some (Inr d') } })
      = Some (Inl r)" by blast
  then show ?thesis by (auto simp: bind_eq_Some_conv split: if_splits)
qed

lemma chk_loop_Inl:
  assumes "for_loop_ret i n
            (\<lambda>i d. do { x \<leftarrow> load d i;
                if c x then Some (Inl (R d))
                else do { d' \<leftarrow> store d i (f x); Some (Inr d') } })
            d0 = Some (Inl r)"
  shows "\<exists>d. r = R d"
proof -
  from for_loop_ret_Inl[OF assms] obtain j s' where
    "(do { x \<leftarrow> load s' j;
           if c x then Some (Inl (R s'))
           else do { d' \<leftarrow> store s' j (f x); Some (Inr d') } })
      = Some (Inl r)" by blast
  then show ?thesis by (auto simp: bind_eq_Some_conv split: if_splits)
qed

lemma add_scalar_ok:
  assumes "wf_tensor t" "alloc_ok 3 st"
  shows "cortex_tensor_add_scalar (Some t) c st =
           Some (Some (t\<lparr>data := map (\<lambda>x. dadd x c) (data t)\<rparr>), allocated 3 st)"
  using assms by (simp add: cortex_tensor_add_scalar_def copy_ok map_loop wf_tensor_def)

lemma multiply_scalar_ok:
  assumes "wf_tensor t" "alloc_ok 3 st"
  shows "cortex_tensor_multiply_scalar (Some t) c st =
           Some (Some (t\<lparr>data := map (\<lambda>x. dmul x c) (data t)\<rparr>), allocated 3 st)"
  using assms by (simp add: cortex_tensor_multiply_scalar_def copy_ok map_loop wf_tensor_def)

lemma exp_ok:
  assumes "wf_tensor t" "alloc_ok 3 st"
  shows "cortex_tensor_exp m (Some t) st =
           Some (Some (t\<lparr>data := map (c_exp m) (data t)\<rparr>), allocated 3 st)"
  using assms by (simp add: cortex_tensor_exp_def copy_ok map_loop wf_tensor_def)

lemma relu_ok:
  assumes "wf_tensor t" "alloc_ok 3 st"
  shows "cortex_tensor_relu m (Some t) st =
           Some (Some (t\<lparr>data := map (c_fmax m d_zero) (data t)\<rparr>), allocated 3 st)"
  using assms by (simp add: cortex_tensor_relu_def copy_ok map_loop wf_tensor_def)

lemma sigmoid_ok:
  assumes "wf_tensor t" "alloc_ok 3 st"
  shows "cortex_tensor_sigmoid m (Some t) st =
           Some (Some (t\<lparr>data := map (\<lambda>x. ddiv d_one (dadd d_one (c_exp m (dneg x)))) (data t)\<rparr>), allocated 3 st)"
  using assms by (simp add: cortex_tensor_sigmoid_def copy_ok map_loop wf_tensor_def)

lemma tanh_ok:
  assumes "wf_tensor t" "alloc_ok 3 st"
  shows "cortex_tensor_tanh m (Some t) st =
           Some (Some (t\<lparr>data := map (c_tanh m) (data t)\<rparr>), allocated 3 st)"
  using assms by (simp add: cortex_tensor_tanh_def copy_ok map_loop wf_tensor_def)

lemma shape_product_1:
  "in_int64 n \<Longrightarrow> shape_product [n] 1 = Some n"
  by (simp add: shape_product_def for_loop_step for_loop_done load_def i64_def)

lemma wf_vec: "length xs < 2 ^ 61 \<Longrightarrow> wf_tensor (vec xs)"
  by (simp add: wf_tensor_def vec_def shape_product_1 in_int64_def)

lemma alloc_ok_fresh: "n \<le> k \<Longrightarrow> alloc_ok n (fresh k)"
  by (simp add: alloc_ok_def fresh_def min_def)

lemma wf_tensor_of_empty: "wf_tensor (vec [])"
  by (simp add: wf_tensor_def vec_def shape_product_def for_loop_step for_loop_done
      load_def i64_def in_int64_def)

lemma softmax_empty:
  "alloc_ok 3 st \<Longrightarrow> cortex_tensor_softmax m (Some (vec [])) st = None"
  by (simp add: cortex_tensor_softmax_def copy_ok wf_tensor_of_empty) (simp add: vec_def load_def)




lemma nbits_bounds: "0 < M \<Longrightarrow> 2 ^ (nbits M - 1) \<le> M \<and> M < 2 ^ nbits M"
proof (induction M rule: nbits.induct)
  case (1 n)
  show ?case
  proof (cases "n div 2 = 0")
    case True
    with 1(2) have "n = 1" by (simp add: div_eq_0_iff) 
    then show ?thesis by (simp add: nbits_1)
  next
    case False
    then have pos: "0 < n div 2" by simp
    from 1(1)[OF _ pos] 1(2)
    have ih: "2 ^ (nbits (n div 2) - 1) \<le> n div 2" "n div 2 < 2 ^ nbits (n div 2)" by simp_all
    have nb: "nbits n = 1 + nbits (n div 2)" using 1(2) by (subst nbits.simps) simp
    have ge1: "1 \<le> nbits (n div 2)" using pos by (subst nbits.simps) simp
    have "2 ^ (nbits n - 1) = 2 * 2 ^ (nbits (n div 2) - 1)"
      using ge1 by (simp add: nb power_Suc[symmetric] del: power_Suc)
    also have "\<dots> \<le> 2 * (n div 2)" using ih(1) by simp
    also have "\<dots> \<le> n" by simp
    finally have a: "2 ^ (nbits n - 1) \<le> n" .
    have "n < 2 * (n div 2) + 2" by presburger
    also have "\<dots> \<le> 2 * 2 ^ nbits (n div 2)" using ih(2) by simp
    finally have b: "n < 2 ^ nbits n" by (simp add: nb)
    from a b show ?thesis ..
  qed
qed

lemma two_powi_pos [simp]: "0 < (2::real) powi e"
  by simp

lemma two_powi_add: "(2::real) powi (a + b) = 2 powi a * 2 powi b"
  by (simp add: power_int_add)

lemma two_powi_nat: "0 \<le> e \<Longrightarrow> (2::real) ^ nat e = 2 powi e"
  by (simp add: power_int_nonneg_exp)

lemma two_powi_less_iff: "(2::real) powi a < 2 powi b \<longleftrightarrow> a < b"
proof
  assume l: "(2::real) powi a < 2 powi b"
  show "a < b"
  proof (rule ccontr)
    assume "\<not> a < b"
    then have "b \<le> a" by simp
    then have "(2::real) powi b \<le> 2 powi a" by (intro power_int_increasing) simp_all
    with l show False by simp
  qed
next
  assume "a < b"
  then show "(2::real) powi a < 2 powi b" by (intro power_int_strict_increasing) simp_all
qed

lemma scaled_val:
  "g \<le> e \<Longrightarrow> real_of_int (scaled s m e g) = dval (Finite s m e) * 2 powi (- g)"
proof -
  assume "g \<le> e"
  then have "(2::real) ^ nat (e - g) = 2 powi (e - g)" by (simp add: two_powi_nat)
  also have "\<dots> = 2 powi e * 2 powi (- g)" using two_powi_add[of e "- g"] by simp
  finally show ?thesis by (simp add: scaled_def)
qed

lemma deq_dval:
  "deq (Finite s m e) (Finite t n f) \<longleftrightarrow> dval (Finite s m e) = dval (Finite t n f)"
proof -
  let ?g = "min e f"
  have "deq (Finite s m e) (Finite t n f) \<longleftrightarrow>
          real_of_int (scaled s m e ?g) = real_of_int (scaled t n f ?g)"
    by (simp add: Let_def)
  also have "\<dots> \<longleftrightarrow> dval (Finite s m e) * 2 powi (- ?g) = dval (Finite t n f) * 2 powi (- ?g)"
    by (simp only: scaled_val[of ?g e] scaled_val[of ?g f] min.cobounded1 min.cobounded2)
  also have "\<dots> \<longleftrightarrow> dval (Finite s m e) = dval (Finite t n f)"
    by simp
  finally show ?thesis .
qed

lemma round_pack_exact:
  assumes M: "0 < M" and m: "m < 2 ^ 53" and e: "- 1074 \<le> e" "e \<le> 971"
    and eq: "real M * 2 powi E = real m * 2 powi e"
  shows "\<exists>m' e'. round_pack s M E = Finite s m' e' \<and> real m' * 2 powi e' = real M * 2 powi E"
proof -
  let ?L = "nbits M"
  let ?e' = "max (E + int ?L - 53) (- 1074)"
  from nbits_bounds[OF M] have Lb: "2 ^ (?L - 1) \<le> M" "M < 2 ^ ?L" by simp_all
  have L1: "1 \<le> ?L" using M by (subst nbits.simps) simp
  have "real m < 2 ^ 53" using m by (metis of_nat_less_iff of_nat_numeral of_nat_power)
  then have "real m * 2 powi e < 2 ^ 53 * 2 powi e" by simp
  also have "\<dots> = 2 powi (53 + e)" by (simp add: two_powi_add)
  finally have up: "real M * 2 powi E < 2 powi (53 + e)" by (simp add: eq)
  have "(2::real) ^ (?L - 1) \<le> real M"
    using Lb(1) by (metis of_nat_le_iff of_nat_numeral of_nat_power)
  then have "(2::real) powi (int ?L - 1) \<le> real M"
    using L1 by (simp add: power_int_def nat_diff_distrib')
  then have "(2::real) powi (int ?L - 1) * 2 powi E \<le> real M * 2 powi E" by simp
  then have "(2::real) powi (int ?L - 1 + E) \<le> real M * 2 powi E"
    by (simp add: two_powi_add)
  with up have "(2::real) powi (int ?L - 1 + E) < 2 powi (53 + e)" by simp
  then have "int ?L - 1 + E < 53 + e" by (simp add: two_powi_less_iff)
  then have EL: "E + int ?L - 53 \<le> e" by simp
  have e'e: "?e' \<le> e" using EL e by simp
  have e'971: "\<not> 971 < ?e'" using e'e e by simp
  show ?thesis
  proof (cases "?e' \<le> E")
    case True
    have rp: "round_pack s M E = Finite s (M * 2 ^ nat (E - ?e')) ?e'"
      using M True e'971 by (simp add: round_pack_def Let_def)
    have "real (M * 2 ^ nat (E - ?e')) * 2 powi ?e' = real M * (2 powi (E - ?e') * 2 powi ?e')"
      using True by (simp add: two_powi_nat)
    also have "\<dots> = real M * 2 powi E"
      using two_powi_add[of "E - ?e'" ?e'] by simp
    finally show ?thesis using rp by blast
  next
    case False
    let ?k = "nat (?e' - E)"
    have lt: "E < ?e'" using False by (simp only: not_le)
    have k0: "0 < ?k" using lt by (simp only: zero_less_nat_eq diff_gt_0_iff_gt)
    have ik: "int ?k = ?e' - E" using lt by (simp only: int_nat_eq) simp
    have eE: "E \<le> e" using lt e'e by (rule less_imp_le[OF less_le_trans])
    have "?e' - E \<le> e - E" using e'e by (simp only: diff_right_mono)
    then have jk: "?k \<le> nat (e - E)" by (rule nat_mono)
    have "real M = real M * 2 powi E * 2 powi (- E)"
      using two_powi_add[of E "- E"] by simp
    also have "\<dots> = real m * (2 powi e * 2 powi (- E))" by (simp add: eq)
    also have "\<dots> = real m * 2 powi (e - E)" using two_powi_add[of e "- E"] by simp
    also have "\<dots> = real (m * 2 ^ nat (e - E))" using eE by (simp add: two_powi_nat)
    finally have Mm: "M = m * 2 ^ nat (e - E)" by (simp only: of_nat_eq_iff)
    have "M = (m * 2 ^ (nat (e - E) - ?k)) * 2 ^ ?k"
      using jk by (simp add: Mm power_add[symmetric])
    then have dv: "2 ^ ?k dvd M" by (metis dvd_triv_right)
    then have r0: "M mod 2 ^ ?k = 0" by simp
    have "E + int ?L - 53 \<le> ?e'" by (rule max.cobounded1)
    then have "int ?L \<le> int ?k + 53" by (simp only: ik)
    then have "?L \<le> ?k + 53" by linarith
    then have "(2::nat) ^ ?L \<le> 2 ^ (?k + 53)" by (intro power_increasing) simp_all
    with Lb(2) have "M < 2 ^ ?k * 2 ^ 53" by (simp add: power_add)
    then have q53: "M div 2 ^ ?k < 2 ^ 53"
      by (simp add: less_mult_imp_div_less mult.commute)
    have hpos: "0 < (2::nat) ^ (?k - 1)" by simp
    have rp: "round_pack s M E = Finite s (M div 2 ^ ?k) ?e'"
      using M False e'971 r0 q53 hpos by (auto simp add: round_pack_def Let_def)
    have "real (M div 2 ^ ?k) = real M / 2 ^ ?k"
      using dv by (simp add: real_of_nat_div)
    also have "\<dots> = real M * 2 powi (- int ?k)"
      by (simp only: power_int_minus power_int_of_nat divide_inverse)
    finally have "real (M div 2 ^ ?k) * 2 powi ?e' = real M * (2 powi (- int ?k) * 2 powi ?e')"
      by simp
    also have "\<dots> = real M * 2 powi E"
      using two_powi_add[of "- int ?k" ?e'] by (simp only: ik) simp
    finally show ?thesis using rp by blast
  qed
qed

lemma two_powi_not_neg: "\<not> (2::real) powi e < 0"
  by (simp add: not_less)

lemma dsub_dadd_exact:
  assumes wf: "wf_double x" and ex: "dadd_exact x y"
  shows "deq (dsub (dadd x y) y) x"
proof -
  from ex obtain s m e where x: "x = Finite s m e"
    by (cases x) (simp_all add: dadd_exact_def)
  from ex obtain t n f where y: "y = Finite t n f"
    by (cases y) (simp_all add: dadd_exact_def)
  from ex obtain u k h where r: "dadd x y = Finite u k h"
    by (cases "dadd x y") (simp_all add: dadd_exact_def)
  from ex r have rv: "dval (Finite u k h) = dval x + dval y"
    by (simp add: dadd_exact_def)
  from wf x have m53: "m < 2 ^ 53" and e1: "- 1074 \<le> e" and e2: "e \<le> 971" by simp_all
  let ?g = "min h f"
  let ?c = "scaled u k h ?g + scaled (\<not> t) n f ?g"
  have ny: "dval (Finite (\<not> t) n f) = - dval y" by (simp add: y)
  have "real_of_int ?c = dval (Finite u k h) * 2 powi (- ?g) + dval (Finite (\<not> t) n f) * 2 powi (- ?g)"
    by (simp only: of_int_add scaled_val[of ?g h] scaled_val[of ?g f] min.cobounded1 min.cobounded2)
  also have "\<dots> = dval x * 2 powi (- ?g)"
    by (simp only: rv ny) (simp add: algebra_simps)
  finally have cv: "real_of_int ?c = dval x * 2 powi (- ?g)" .
  have ds: "dsub (dadd x y) y =
      (if ?c = 0 then Finite (u \<and> \<not> t) 0 (- 1074) else round_pack (?c < 0) (nat \<bar>?c\<bar>) ?g)"
    using r by (simp add: dsub_def y Let_def)
  show ?thesis
  proof (cases "?c = 0")
    case True
    with cv have "dval x = 0" by simp
    then have "dval (Finite (u \<and> \<not> t) 0 (- 1074)) = dval (Finite s m e)" by (simp add: x)
    then have "deq (Finite (u \<and> \<not> t) 0 (- 1074)) (Finite s m e)" by (simp only: deq_dval)
    with True ds x show ?thesis by simp
  next
    case False
    then have "real_of_int ?c \<noteq> 0" by (simp only: of_int_eq_0_iff not_False_eq_True)
    with cv have xn: "dval x \<noteq> 0" by auto
    then have m0: "0 < m" by (auto simp: x)
    have sg: "(?c < 0) = s"
    proof -
      have "(?c < 0) \<longleftrightarrow> real_of_int ?c < 0" by (simp only: of_int_less_0_iff)
      also have "real_of_int ?c < 0 \<longleftrightarrow> dval x < 0"
      proof -
        have pp: "0 < (2::real) powi (- ?g)" by simp
        have "dval x * 2 powi (- ?g) < 0 \<longleftrightarrow> dval x < 0"
          using mult_less_cancel_right_pos[OF pp, of "dval x" 0] by (simp only: mult_zero_left)
        then show ?thesis by (simp only: cv)
      qed
      also have "\<dots> \<longleftrightarrow> s" using m0 by (simp add: x mult_less_0_iff two_powi_not_neg)
      finally show ?thesis .
    qed
    have "real (nat \<bar>?c\<bar>) = \<bar>real_of_int ?c\<bar>"
      by (simp only: of_nat_nat abs_ge_zero of_int_abs)
    also have "\<dots> = \<bar>dval x\<bar> * 2 powi (- ?g)" by (simp only: cv abs_mult) simp
    also have "\<bar>dval x\<bar> = real m * 2 powi e" by (simp add: x abs_mult)
    finally have "real (nat \<bar>?c\<bar>) * 2 powi ?g = real m * 2 powi e * (2 powi (- ?g) * 2 powi ?g)"
      by simp
    also have "\<dots> = real m * 2 powi e" using two_powi_add[of "- ?g" ?g] by simp
    finally have eq: "real (nat \<bar>?c\<bar>) * 2 powi ?g = real m * 2 powi e" .
    have Mpos: "0 < nat \<bar>?c\<bar>" using False by simp
    from round_pack_exact[OF Mpos m53 e1 e2 eq, of "?c < 0"]
    obtain m' e' where rp: "round_pack (?c < 0) (nat \<bar>?c\<bar>) ?g = Finite (?c < 0) m' e'"
      and v: "real m' * 2 powi e' = real (nat \<bar>?c\<bar>) * 2 powi ?g" by blast
    have "dval (Finite (?c < 0) m' e') = dval (Finite s m e)"
      using v eq by (simp add: sg)
    then have "deq (Finite (?c < 0) m' e') (Finite s m e)" by (simp only: deq_dval)
    with False ds rp x show ?thesis by simp
  qed
qed

subsection \<open>C3: division by zero\<close>

text \<open>
  Claim C3. For two well-formed tensors of equal size, and with memory for the result,
  \<open>cortex_tensor_divide\<close> fails with the message \<open>Division by zero\<close> exactly when some
  element of \<open>b\<close> compares equal to \<open>0.0\<close> (C's \<open>==\<close>, under which \<open>-0.0\<close> is a zero).
  On that failure it returns the null pointer and the three blocks of the partial result
  are freed: the state is the one that recording the error alone would give, three
  allocations later in the plan. Otherwise the result is \<open>a\<close> with
  \<open>a\<^sub>i / b\<^sub>i\<close> at every flat position.
\<close>

theorem divide_by_zero:
  assumes "wf_tensor a" "wf_tensor b" "size_el a = size_el b" "alloc_ok 3 st"
  shows "(fails_with ''Division by zero'' (cortex_tensor_divide (Some a) (Some b) st)
            \<longleftrightarrow> (\<exists>y\<in>set (data b). deq y d_zero)) \<and>
         ((\<exists>y\<in>set (data b). deq y d_zero) \<longrightarrow>
            cortex_tensor_divide (Some a) (Some b) st =
              Some (None, (cortex_set_error ''Division by zero'' st)
                            \<lparr>alloc_plan := drop 3 (alloc_plan st)\<rparr>)) \<and>
         (\<not> (\<exists>y\<in>set (data b). deq y d_zero) \<longrightarrow>
            cortex_tensor_divide (Some a) (Some b) st =
              Some (Some (a\<lparr>data := map2 ddiv (data a) (data b)\<rparr>), allocated 3 st))"
  by (simp add: divide_ok[OF assms] fails_with_def)

theorem divide_by_zero_witness:
  "wf_tensor (vec [d_one, d_one]) \<and> wf_tensor (vec [d_zero, d_zero]) \<and>
   size_el (vec [d_one, d_one]) = size_el (vec [d_zero, d_zero]) \<and> alloc_ok 3 (fresh 3) \<and>
   fails_with ''Division by zero''
     (cortex_tensor_divide (Some (vec [d_one, d_one])) (Some (vec [d_zero, d_zero])) (fresh 3)) \<and>
   cortex_tensor_divide (Some (vec [d_one, d_one])) (Some (vec [d_zero, d_zero])) (fresh 3) =
     Some (None, \<lparr>g_error_message = Some ''Division by zero'', alloc_plan = [],
                  live_blocks = 1\<rparr>)"
proof -
  have w1: "wf_tensor (vec [d_one, d_one])" by (simp add: wf_vec)
  have w2: "wf_tensor (vec [d_zero, d_zero])" by (simp add: wf_vec)
  have sz: "size_el (vec [d_one, d_one]) = size_el (vec [d_zero, d_zero])" by (simp add: vec_def)
  have al: "alloc_ok 3 (fresh 3)" by (simp add: alloc_ok_fresh)
  have z: "deq d_zero d_zero" by (simp add: d_zero_def scaled_def)
  have e: "(cortex_set_error ''Division by zero'' (fresh 3))\<lparr>alloc_plan := drop 3 (alloc_plan (fresh 3))\<rparr>
     = \<lparr>g_error_message = Some ''Division by zero'', alloc_plan = [], live_blocks = 1\<rparr>"
    by (simp add: cortex_set_error_def fresh_def)
  show ?thesis
    using divide_by_zero[OF w1 w2 sz al] w1 w2 sz al z e by (simp add: vec_def fails_with_def)
qed

lemma dbl_zero_div_zero: "ddiv d_zero (of_int64 0) = NaN"
  by (simp add: d_zero_def of_int64_def round_pack_def)

subsection \<open>C1: reductions of an empty tensor\<close>

text \<open>
  Claim C1 says that every reduction of a tensor of size 0 fails with an error. The
  code guards \<open>size == 0\<close> in \<open>cortex_tensor_min\<close> and \<open>cortex_tensor_max\<close> only. On the empty
  one-axis tensor \<open>cortex_tensor_sum\<close> returns \<open>0.0\<close>, \<open>cortex_tensor_mean\<close> divides
  \<open>0.0\<close> by \<open>0\<close> and returns NaN, \<open>cortex_tensor_std\<close> and \<open>cortex_tensor_var\<close> pass that NaN
  through \<open>sqrt\<close>, and none of the four touches the state: no error is recorded.
\<close>

theorem reductions_of_empty_tensor:
  "cortex_tensor_sum (Some (vec [])) st = Some (d_zero, st) \<and>
   cortex_tensor_mean (Some (vec [])) st = Some (NaN, st) \<and>
   cortex_tensor_std m (Some (vec [])) st = Some (c_sqrt m NaN, st) \<and>
   cortex_tensor_var m (Some (vec [])) st = Some (dmul (c_sqrt m NaN) (c_sqrt m NaN), st) \<and>
   cortex_tensor_min (Some (vec [])) st =
     Some (d_zero, cortex_set_error ''Cannot compute min of NULL or empty tensor'' st) \<and>
   cortex_tensor_max (Some (vec [])) st =
     Some (d_zero, cortex_set_error ''Cannot compute max of NULL or empty tensor'' st)"
proof -
  have s: "cortex_tensor_sum (Some (vec [])) st = Some (d_zero, st)"
    by (simp add: cortex_tensor_sum_def vec_def for_loop_done)
  have me: "cortex_tensor_mean (Some (vec [])) st = Some (NaN, st)"
    by (simp add: cortex_tensor_mean_def s) (simp add: vec_def dbl_zero_div_zero)
  have sd: "cortex_tensor_std m (Some (vec [])) st = Some (c_sqrt m NaN, st)"
    by (simp add: cortex_tensor_std_def me) (simp add: vec_def for_loop_done dbl_zero_div_zero)
  have va: "cortex_tensor_var m (Some (vec [])) st
              = Some (dmul (c_sqrt m NaN) (c_sqrt m NaN), st)"
    by (simp add: cortex_tensor_var_def sd)
  have mi: "cortex_tensor_min (Some (vec [])) st =
      Some (d_zero, cortex_set_error ''Cannot compute min of NULL or empty tensor'' st)"
    by (simp add: cortex_tensor_min_def vec_def)
  have ma: "cortex_tensor_max (Some (vec [])) st =
      Some (d_zero, cortex_set_error ''Cannot compute max of NULL or empty tensor'' st)"
    by (simp add: cortex_tensor_max_def vec_def)
  from s me sd va mi ma show ?thesis by simp
qed

subsection \<open>C2: activations of an empty tensor\<close>

text \<open>
  Claim C2 says that no activation can fail on a present tensor, a zero-size one
  included, and that every buffer access is in bounds. \<open>cortex_tensor_softmax\<close> seeds its
  maximum with \<open>result->data[0]\<close> before any test of the size: on the empty tensor, with
  the copy allocated, this reads outside the zero-element buffer, which is undefined
  behaviour. The ReLU of the same tensor in the same state is the empty tensor.
\<close>

theorem softmax_of_empty_tensor:
  "cortex_tensor_softmax m (Some (vec [])) (fresh 3) = None \<and>
   cortex_tensor_relu m (Some (vec [])) (fresh 3) = Some (Some (vec []), allocated 3 (fresh 3))"
proof -
  have a: "alloc_ok 3 (fresh 3)" by (simp add: alloc_ok_fresh)
  have sm: "cortex_tensor_softmax m (Some (vec [])) (fresh 3) = None"
    by (rule softmax_empty[OF a])
  have "cortex_tensor_relu m (Some (vec [])) (fresh 3)
          = Some (Some ((vec [])\<lparr>data := map (c_fmax m d_zero) (data (vec []))\<rparr>),
                  allocated 3 (fresh 3))"
    by (rule relu_ok[OF wf_tensor_of_empty a])
  with sm show ?thesis by (simp add: vec_def)
qed

lemma alloc_ok_add:
  "alloc_ok (a + b) st \<Longrightarrow> alloc_ok a st \<and> alloc_ok b (allocated a st)"
proof -
  assume h: "alloc_ok (a + b) st"
  then have t: "take (a + b) (alloc_plan st) = replicate (a + b) True"
    by (simp add: alloc_ok_def)
  have "take a (alloc_plan st) = take a (take (a + b) (alloc_plan st))" by simp
  also have "\<dots> = replicate a True" by (simp only: t) simp
  finally have 1: "alloc_ok a st" by (simp add: alloc_ok_def)
  have "take b (drop a (alloc_plan st)) = drop a (take (a + b) (alloc_plan st))"
    by (simp add: drop_take add.commute)
  also have "\<dots> = replicate b True" by (simp only: t) simp
  finally have 2: "alloc_ok b (allocated a st)" by (simp add: alloc_ok_def allocated_def)
  from 1 2 show ?thesis ..
qed

lemma allocated_twice: "allocated a (allocated b st) = allocated (b + a) st"
  by (simp add: allocated_def add.commute add.assoc)

lemma map2_map2_left:
  "length xs = length ys \<Longrightarrow> map2 g (map2 f xs ys) ys = map2 (\<lambda>x y. g (f x y) y) xs ys"
  by (induction xs ys rule: list_induct2) simp_all

lemma subtract_add_ok:
  assumes "wf_tensor a" "wf_tensor b" "size_el a = size_el b" "alloc_ok 6 st"
  shows "subtract_add (Some a) (Some b) st =
           Some (Some (a\<lparr>data := map2 (\<lambda>x y. dsub (dadd x y) y) (data a) (data b)\<rparr>),
                 allocated 6 st)"
proof -
  from alloc_ok_add[of 3 3 st] assms(4)
  have a1: "alloc_ok 3 st" and a2: "alloc_ok 3 (allocated 3 st)" by simp_all
  have len: "length (data a) = length (data b)"
    using assms(1,2,3) by (simp add: wf_tensor_def)
  let ?s = "a\<lparr>data := map2 dadd (data a) (data b)\<rparr>"
  have ws: "wf_tensor ?s" using assms(1) len by (simp add: wf_tensor_def)
  have ss: "size_el ?s = size_el b" using assms(3) by simp
  have "subtract_add (Some a) (Some b) st =
          cortex_tensor_subtract (Some ?s) (Some b) (allocated 3 st)"
    by (simp add: subtract_add_def add_ok[OF assms(1,2,3) a1])
  also have "\<dots> = Some (Some (?s\<lparr>data := map2 dsub (data ?s) (data b)\<rparr>),
                          allocated 3 (allocated 3 st))"
    by (rule subtract_ok[OF ws assms(2) ss a2])
  finally show ?thesis using len by (simp add: map2_map2_left allocated_twice)
qed

lemmas dbl_eval = dsub_def dgt_def dle_def of_int64_def round_pack_def nbits_0 nbits_1
  nbits_numeral d_one_def d_zero_def d_two_def d_2p53_def scaled_def in_int64_def

lemma round_trip_2p53: "dsub (dadd d_one d_2p53) d_2p53 = d_zero"
  by (simp add: dbl_eval)

lemma round_trip_one: "dsub (dadd d_one d_one) d_one = d_one"
  by (simp add: dbl_eval)

lemma zero_ne_one: "\<not> deq d_zero d_one"
  by (simp add: dbl_eval)

lemma dval_one: "dval d_one = 1"
  by (simp add: d_one_def)

lemma dval_two: "dval d_two = 2"
  by (simp add: d_two_def)

lemma add_one_one: "dadd d_one d_one = d_two"
  by (simp add: dbl_eval)

lemma dadd_exact_one_one: "dadd_exact d_one d_one"
  by (simp add: dadd_exact_def add_one_one dval_one dval_two) (simp add: d_one_def d_two_def)

subsection \<open>C5: subtraction after addition\<close>

text \<open>
  Claim C5, as amended. For well-formed tensors of equal size, with memory for the two
  results, \<open>subtract(add(a, b), b)\<close> is \<open>a\<close> with the double \<open>(a\<^sub>i + b\<^sub>i) - b\<^sub>i\<close> at every
  flat position, each operation rounded to binary64. At every position where \<open>a\<^sub>i\<close> is
  a binary64 value and the addition is exact (\<open>a\<^sub>i\<close>, \<open>b\<^sub>i\<close> and the double sum are finite,
  and the double sum has the value of the real sum), the result compares equal to
  \<open>a\<^sub>i\<close> under C's \<open>==\<close>. Nothing is said of a position where the addition rounds or
  overflows, or where an operand is an infinity or NaN.
\<close>

theorem subtract_after_add:
  assumes "wf_tensor a" "wf_tensor b" "size_el a = size_el b" "alloc_ok 6 st"
  shows "subtract_add (Some a) (Some b) st =
           Some (Some (a\<lparr>data := map2 (\<lambda>x y. dsub (dadd x y) y) (data a) (data b)\<rparr>),
                 allocated 6 st) \<and>
         (\<forall>i<length (data a).
            wf_double (data a ! i) \<and> dadd_exact (data a ! i) (data b ! i) \<longrightarrow>
            deq (map2 (\<lambda>x y. dsub (dadd x y) y) (data a) (data b) ! i) (data a ! i))"
proof -
  have len: "length (data a) = length (data b)"
    using assms(1,2,3) by (simp add: wf_tensor_def)
  have "\<forall>i<length (data a).
            wf_double (data a ! i) \<and> dadd_exact (data a ! i) (data b ! i) \<longrightarrow>
            deq (map2 (\<lambda>x y. dsub (dadd x y) y) (data a) (data b) ! i) (data a ! i)"
    using len by (auto simp: dsub_dadd_exact)
  with subtract_add_ok[OF assms] show ?thesis by blast
qed

theorem subtract_after_add_witness:
  "wf_tensor (vec [d_one]) \<and> size_el (vec [d_one]) = size_el (vec [d_one]) \<and>
   alloc_ok 6 (fresh 6) \<and> wf_double (data (vec [d_one]) ! 0) \<and>
   dadd_exact (data (vec [d_one]) ! 0) (data (vec [d_one]) ! 0) \<and>
   subtract_add (Some (vec [d_one])) (Some (vec [d_one])) (fresh 6)
     = Some (Some (vec [d_one]), allocated 6 (fresh 6)) \<and>
   deq (map2 (\<lambda>x y. dsub (dadd x y) y) (data (vec [d_one])) (data (vec [d_one])) ! 0)
       (data (vec [d_one]) ! 0)"
proof -
  have w: "wf_tensor (vec [d_one])" by (simp add: wf_vec)
  have a: "alloc_ok 6 (fresh 6)" by (simp add: alloc_ok_fresh)
  have wd: "wf_double (data (vec [d_one]) ! 0)" by (simp add: vec_def d_one_def)
  have ex: "dadd_exact (data (vec [d_one]) ! 0) (data (vec [d_one]) ! 0)"
    by (simp add: vec_def dadd_exact_one_one)
  have l: "0 < length (data (vec [d_one]))" by (simp add: vec_def)
  note th = subtract_after_add[OF w w refl a]
  from th have r: "subtract_add (Some (vec [d_one])) (Some (vec [d_one])) (fresh 6)
     = Some (Some (vec [d_one]), allocated 6 (fresh 6))"
    by (simp add: vec_def round_trip_one)
  from th l wd ex
  have d: "deq (map2 (\<lambda>x y. dsub (dadd x y) y) (data (vec [d_one])) (data (vec [d_one])) ! 0)
       (data (vec [d_one]) ! 0)"
    by blast
  from w a wd ex r d show ?thesis by blast
qed

text \<open>
  The claim as stated fails for \<open>a = [1.0]\<close> and \<open>b = [9007199254740992.0]\<close>: the sum
  \<open>2^53 + 1\<close> is not a double and rounds to \<open>2^53\<close>, so the addition is not exact and
  the difference is \<open>0.0\<close>, which does not compare equal to \<open>1.0\<close>.
\<close>

theorem subtract_after_add_counterexample:
  "subtract_add (Some (vec [d_one])) (Some (vec [d_2p53])) (fresh 6)
     = Some (Some (vec [d_zero]), allocated 6 (fresh 6)) \<and>
   \<not> deq (data (vec [d_zero]) ! 0) (data (vec [d_one]) ! 0) \<and>
   \<not> dadd_exact (data (vec [d_one]) ! 0) (data (vec [d_2p53]) ! 0)"
proof -
  have ad: "dadd d_one d_2p53 = d_2p53" by (simp add: dbl_eval)
  have ne: "\<not> dadd_exact d_one d_2p53"
    by (simp add: dadd_exact_def ad dval_one)
  have w1: "wf_tensor (vec [d_one])" and w2: "wf_tensor (vec [d_2p53])"
    by (simp_all add: wf_vec)
  have s: "size_el (vec [d_one]) = size_el (vec [d_2p53])" by (simp add: vec_def)
  have a: "alloc_ok 6 (fresh 6)" by (simp add: alloc_ok_fresh)
  from subtract_add_ok[OF w1 w2 s a] show ?thesis
    using ne by (simp add: vec_def round_trip_2p53 zero_ne_one)
qed

lemma add_not_mismatch:
  "size_el a = size_el b \<Longrightarrow>
     \<not> fails_with ''Tensor size mismatch for addition'' (cortex_tensor_add (Some a) (Some b) st)"
  by (auto simp: fails_with_def cortex_tensor_add_def
      split: option.splits prod.splits Option.bind_splits dest!: copy_err)

lemma subtract_not_mismatch:
  "size_el a = size_el b \<Longrightarrow>
     \<not> fails_with ''Tensor size mismatch for subtraction''
         (cortex_tensor_subtract (Some a) (Some b) st)"
  by (auto simp: fails_with_def cortex_tensor_subtract_def
      split: option.splits prod.splits Option.bind_splits dest!: copy_err)

lemma multiply_not_mismatch:
  "size_el a = size_el b \<Longrightarrow>
     \<not> fails_with ''Tensor size mismatch for multiplication''
         (cortex_tensor_multiply (Some a) (Some b) st)"
  by (auto simp: fails_with_def cortex_tensor_multiply_def
      split: option.splits prod.splits Option.bind_splits dest!: copy_err)

lemma power_not_mismatch:
  "size_el a = size_el b \<Longrightarrow>
     \<not> fails_with ''Tensor size mismatch for power operation''
         (cortex_tensor_power m (Some a) (Some b) st)"
  by (auto simp: fails_with_def cortex_tensor_power_def
      split: option.splits prod.splits Option.bind_splits dest!: copy_err)

lemma divide_not_mismatch:
  "size_el a = size_el b \<Longrightarrow>
     \<not> fails_with ''Tensor size mismatch for division''
         (cortex_tensor_divide (Some a) (Some b) st)"
  by (auto simp: fails_with_def cortex_tensor_divide_def
      split: option.splits prod.splits Option.bind_splits sum.splits
      dest!: copy_err div_loop_Inl)

lemma wf_tensor_of_23: "length xs = 6 \<Longrightarrow> wf_tensor (tensor_of [2, 3] xs)"
  by (simp add: wf_tensor_def tensor_of_def shape_product_def for_loop_step for_loop_done
      load_def i64_def in_int64_def)

lemma wf_tensor_of_32: "length xs = 6 \<Longrightarrow> wf_tensor (tensor_of [3, 2] xs)"
  by (simp add: wf_tensor_def tensor_of_def shape_product_def for_loop_step for_loop_done
      load_def i64_def in_int64_def)

subsection \<open>C7: the size check of the binary operations\<close>

text \<open>
  Claim C7. On two present tensors each of \<open>add\<close>, \<open>subtract\<close>, \<open>multiply\<close>, \<open>divide\<close> and
  \<open>power\<close> fails with its size-mismatch message exactly when \<open>a.size \<noteq> b.size\<close>. The
  shapes are not compared: well-formed tensors of equal size, whatever their axes, are
  combined position by position over the flat buffers (memory for the result given),
  and the result is \<open>a\<close> with the new data, so it has the axes of \<open>a\<close>. \<open>divide\<close> combines
  the same way unless a divisor is zero.
\<close>

theorem binary_size_check:
  "(fails_with ''Tensor size mismatch for addition'' (cortex_tensor_add (Some a) (Some b) st)
      \<longleftrightarrow> size_el a \<noteq> size_el b) \<and>
   (fails_with ''Tensor size mismatch for subtraction''
      (cortex_tensor_subtract (Some a) (Some b) st) \<longleftrightarrow> size_el a \<noteq> size_el b) \<and>
   (fails_with ''Tensor size mismatch for multiplication''
      (cortex_tensor_multiply (Some a) (Some b) st) \<longleftrightarrow> size_el a \<noteq> size_el b) \<and>
   (fails_with ''Tensor size mismatch for division''
      (cortex_tensor_divide (Some a) (Some b) st) \<longleftrightarrow> size_el a \<noteq> size_el b) \<and>
   (fails_with ''Tensor size mismatch for power operation''
      (cortex_tensor_power m (Some a) (Some b) st) \<longleftrightarrow> size_el a \<noteq> size_el b) \<and>
   (wf_tensor a \<and> wf_tensor b \<and> size_el a = size_el b \<and> alloc_ok 3 st \<longrightarrow>
      cortex_tensor_add (Some a) (Some b) st =
        Some (Some (a\<lparr>data := map2 dadd (data a) (data b)\<rparr>), allocated 3 st) \<and>
      cortex_tensor_subtract (Some a) (Some b) st =
        Some (Some (a\<lparr>data := map2 dsub (data a) (data b)\<rparr>), allocated 3 st) \<and>
      cortex_tensor_multiply (Some a) (Some b) st =
        Some (Some (a\<lparr>data := map2 dmul (data a) (data b)\<rparr>), allocated 3 st) \<and>
      cortex_tensor_power m (Some a) (Some b) st =
        Some (Some (a\<lparr>data := map2 (c_pow m) (data a) (data b)\<rparr>), allocated 3 st) \<and>
      ((\<forall>y\<in>set (data b). \<not> deq y d_zero) \<longrightarrow>
         cortex_tensor_divide (Some a) (Some b) st =
           Some (Some (a\<lparr>data := map2 ddiv (data a) (data b)\<rparr>), allocated 3 st)))"
proof -
  have 1: "fails_with ''Tensor size mismatch for addition''
             (cortex_tensor_add (Some a) (Some b) st) \<longleftrightarrow> size_el a \<noteq> size_el b"
    using add_not_mismatch[of a b st]
    by (cases "size_el a = size_el b") (simp_all add: cortex_tensor_add_def fails_with_def)
  have 2: "fails_with ''Tensor size mismatch for subtraction''
             (cortex_tensor_subtract (Some a) (Some b) st) \<longleftrightarrow> size_el a \<noteq> size_el b"
    using subtract_not_mismatch[of a b st]
    by (cases "size_el a = size_el b") (simp_all add: cortex_tensor_subtract_def fails_with_def)
  have 3: "fails_with ''Tensor size mismatch for multiplication''
             (cortex_tensor_multiply (Some a) (Some b) st) \<longleftrightarrow> size_el a \<noteq> size_el b"
    using multiply_not_mismatch[of a b st]
    by (cases "size_el a = size_el b") (simp_all add: cortex_tensor_multiply_def fails_with_def)
  have 4: "fails_with ''Tensor size mismatch for division''
             (cortex_tensor_divide (Some a) (Some b) st) \<longleftrightarrow> size_el a \<noteq> size_el b"
    using divide_not_mismatch[of a b st]
    by (cases "size_el a = size_el b") (simp_all add: cortex_tensor_divide_def fails_with_def)
  have 5: "fails_with ''Tensor size mismatch for power operation''
             (cortex_tensor_power m (Some a) (Some b) st) \<longleftrightarrow> size_el a \<noteq> size_el b"
    using power_not_mismatch[of a b m st]
    by (cases "size_el a = size_el b") (simp_all add: cortex_tensor_power_def fails_with_def)
  have 6: "wf_tensor a \<and> wf_tensor b \<and> size_el a = size_el b \<and> alloc_ok 3 st \<longrightarrow>
      cortex_tensor_add (Some a) (Some b) st =
        Some (Some (a\<lparr>data := map2 dadd (data a) (data b)\<rparr>), allocated 3 st) \<and>
      cortex_tensor_subtract (Some a) (Some b) st =
        Some (Some (a\<lparr>data := map2 dsub (data a) (data b)\<rparr>), allocated 3 st) \<and>
      cortex_tensor_multiply (Some a) (Some b) st =
        Some (Some (a\<lparr>data := map2 dmul (data a) (data b)\<rparr>), allocated 3 st) \<and>
      cortex_tensor_power m (Some a) (Some b) st =
        Some (Some (a\<lparr>data := map2 (c_pow m) (data a) (data b)\<rparr>), allocated 3 st) \<and>
      ((\<forall>y\<in>set (data b). \<not> deq y d_zero) \<longrightarrow>
         cortex_tensor_divide (Some a) (Some b) st =
           Some (Some (a\<lparr>data := map2 ddiv (data a) (data b)\<rparr>), allocated 3 st))"
    by (simp add: add_ok subtract_ok multiply_ok power_ok divide_ok)
  from 1 2 3 4 5 6 show ?thesis by blast
qed

text \<open>A 2 by 3 tensor and a 3 by 2 tensor: equal size, different axes.\<close>

theorem binary_size_check_witness:
  "wf_tensor (tensor_of [2, 3] [d_one, d_one, d_one, d_one, d_one, d_one]) \<and>
   wf_tensor (tensor_of [3, 2] [d_one, d_one, d_one, d_one, d_one, d_one]) \<and>
   size_el (tensor_of [2, 3] [d_one, d_one, d_one, d_one, d_one, d_one]) = size_el (tensor_of [3, 2] [d_one, d_one, d_one, d_one, d_one, d_one]) \<and>
   shape (tensor_of [2, 3] [d_one, d_one, d_one, d_one, d_one, d_one]) \<noteq> shape (tensor_of [3, 2] [d_one, d_one, d_one, d_one, d_one, d_one]) \<and>
   alloc_ok 3 (fresh 3) \<and>
   \<not> deq d_one d_zero \<and>
   cortex_tensor_add (Some (tensor_of [2, 3] [d_one, d_one, d_one, d_one, d_one, d_one]))
       (Some (tensor_of [3, 2] [d_one, d_one, d_one, d_one, d_one, d_one])) (fresh 3)
     = Some (Some (tensor_of [2, 3] [d_two, d_two, d_two, d_two, d_two, d_two]), allocated 3 (fresh 3)) \<and>
   cortex_tensor_divide (Some (tensor_of [2, 3] [d_one, d_one, d_one, d_one, d_one, d_one]))
       (Some (tensor_of [3, 2] [d_one, d_one, d_one, d_one, d_one, d_one])) (fresh 3)
     = Some (Some (tensor_of [2, 3] [d_one, d_one, d_one, d_one, d_one, d_one]), allocated 3 (fresh 3)) \<and>
   \<not> fails_with ''Tensor size mismatch for addition''
       (cortex_tensor_add (Some (tensor_of [2, 3] [d_one, d_one, d_one, d_one, d_one, d_one]))
          (Some (tensor_of [3, 2] [d_one, d_one, d_one, d_one, d_one, d_one])) (fresh 3)) \<and>
   fails_with ''Tensor size mismatch for addition''
       (cortex_tensor_add (Some (vec [d_one])) (Some (vec [d_one, d_one])) (fresh 3))"
proof -
  let ?a = "tensor_of [2, 3] [d_one, d_one, d_one, d_one, d_one, d_one]" and ?b = "tensor_of [3, 2] [d_one, d_one, d_one, d_one, d_one, d_one]"
  have wa: "wf_tensor ?a" by (simp add: wf_tensor_of_23)
  have wb: "wf_tensor ?b" by (simp add: wf_tensor_of_32)
  have sz: "size_el ?a = size_el ?b" by (simp add: tensor_of_def)
  have sh: "shape ?a \<noteq> shape ?b" by (simp add: tensor_of_def)
  have al: "alloc_ok 3 (fresh 3)" by (simp add: alloc_ok_fresh)
  have one_one: "dadd d_one d_one = d_two" by (simp add: dbl_eval)
  have div_one: "ddiv d_one d_one = d_one" by (simp add: dbl_eval)
  have nz: "\<not> deq d_one d_zero" by (simp add: dbl_eval)
  have nzs: "\<forall>y\<in>set (data ?b). \<not> deq y d_zero" using nz by (simp add: tensor_of_def)
  note inst = binary_size_check[of ?a ?b "fresh 3"]
  from inst wa wb sz al
  have "cortex_tensor_add (Some ?a) (Some ?b) (fresh 3)
          = Some (Some (?a\<lparr>data := map2 dadd (data ?a) (data ?b)\<rparr>), allocated 3 (fresh 3))"
    by blast
  then have r1: "cortex_tensor_add (Some ?a) (Some ?b) (fresh 3)
              = Some (Some (tensor_of [2, 3] [d_two, d_two, d_two, d_two, d_two, d_two]),
                      allocated 3 (fresh 3))"
    by (simp add: tensor_of_def one_one)
  from inst wa wb sz al nzs
  have "cortex_tensor_divide (Some ?a) (Some ?b) (fresh 3)
          = Some (Some (?a\<lparr>data := map2 ddiv (data ?a) (data ?b)\<rparr>), allocated 3 (fresh 3))"
    by blast
  then have r2: "cortex_tensor_divide (Some ?a) (Some ?b) (fresh 3)
              = Some (Some (tensor_of [2, 3] [d_one, d_one, d_one, d_one, d_one, d_one]),
                      allocated 3 (fresh 3))"
    by (simp add: tensor_of_def div_one)
  have r3: "\<not> fails_with ''Tensor size mismatch for addition''
              (cortex_tensor_add (Some ?a) (Some ?b) (fresh 3))"
    using inst sz by blast
  have r4: "fails_with ''Tensor size mismatch for addition''
       (cortex_tensor_add (Some (vec [d_one])) (Some (vec [d_one, d_one])) (fresh 3))"
    using binary_size_check[of "vec [d_one]" "vec [d_one, d_one]" "fresh 3"]
    by (simp add: vec_def)
  from wa wb sz sh al nz r1 r2 r3 r4 show ?thesis by blast
qed

lemma keeps_add_scalar:
  "wf_tensor t \<Longrightarrow> keeps_layout t (cortex_tensor_add_scalar (Some t) c st)"
  by (auto simp: keeps_layout_def cortex_tensor_add_scalar_def
      split: option.splits prod.splits Option.bind_splits dest!: copy_SomeD)

lemma keeps_multiply_scalar:
  "wf_tensor t \<Longrightarrow> keeps_layout t (cortex_tensor_multiply_scalar (Some t) c st)"
  by (auto simp: keeps_layout_def cortex_tensor_multiply_scalar_def
      split: option.splits prod.splits Option.bind_splits dest!: copy_SomeD)

lemma keeps_exp:
  "wf_tensor t \<Longrightarrow> keeps_layout t (cortex_tensor_exp m (Some t) st)"
  by (auto simp: keeps_layout_def cortex_tensor_exp_def
      split: option.splits prod.splits Option.bind_splits dest!: copy_SomeD)

lemma keeps_log:
  "wf_tensor t \<Longrightarrow> keeps_layout t (cortex_tensor_log m (Some t) st)"
  by (auto simp: keeps_layout_def cortex_tensor_log_def
      split: option.splits prod.splits Option.bind_splits sum.splits dest!: copy_SomeD chk_loop_Inl)

lemma keeps_sqrt:
  "wf_tensor t \<Longrightarrow> keeps_layout t (cortex_tensor_sqrt m (Some t) st)"
  by (auto simp: keeps_layout_def cortex_tensor_sqrt_def
      split: option.splits prod.splits Option.bind_splits sum.splits dest!: copy_SomeD chk_loop_Inl)

lemma keeps_relu:
  "wf_tensor t \<Longrightarrow> keeps_layout t (cortex_tensor_relu m (Some t) st)"
  by (auto simp: keeps_layout_def cortex_tensor_relu_def
      split: option.splits prod.splits Option.bind_splits dest!: copy_SomeD)

lemma keeps_sigmoid:
  "wf_tensor t \<Longrightarrow> keeps_layout t (cortex_tensor_sigmoid m (Some t) st)"
  by (auto simp: keeps_layout_def cortex_tensor_sigmoid_def
      split: option.splits prod.splits Option.bind_splits dest!: copy_SomeD)

lemma keeps_tanh:
  "wf_tensor t \<Longrightarrow> keeps_layout t (cortex_tensor_tanh m (Some t) st)"
  by (auto simp: keeps_layout_def cortex_tensor_tanh_def
      split: option.splits prod.splits Option.bind_splits dest!: copy_SomeD)

lemma keeps_softmax:
  "wf_tensor t \<Longrightarrow> keeps_layout t (cortex_tensor_softmax m (Some t) st)"
  by (auto simp: keeps_layout_def cortex_tensor_softmax_def
      split: option.splits prod.splits Option.bind_splits dest!: copy_SomeD)

subsection \<open>C10: the unary operations keep the layout\<close>

text \<open>
  Claim C10. Each of \<open>add_scalar\<close>, \<open>multiply_scalar\<close>, \<open>exp\<close>, \<open>log\<close>, \<open>sqrt\<close>, \<open>relu\<close>,
  \<open>sigmoid\<close>, \<open>tanh\<close> and \<open>softmax\<close>, applied to a well-formed tensor, returns either no
  tensor or a tensor with the \<open>ndim\<close>, the \<open>shape\<close>, the \<open>size\<close> and the \<open>requires_grad\<close>
  flag of its input: the result starts as \<open>cortex_tensor_copy\<close> of the input and only
  its data are written afterwards.
\<close>

theorem unary_keeps_layout:
  assumes "wf_tensor t"
  shows "keeps_layout t (cortex_tensor_add_scalar (Some t) c st) \<and>
         keeps_layout t (cortex_tensor_multiply_scalar (Some t) c st) \<and>
         keeps_layout t (cortex_tensor_exp m (Some t) st) \<and>
         keeps_layout t (cortex_tensor_log m (Some t) st) \<and>
         keeps_layout t (cortex_tensor_sqrt m (Some t) st) \<and>
         keeps_layout t (cortex_tensor_relu m (Some t) st) \<and>
         keeps_layout t (cortex_tensor_sigmoid m (Some t) st) \<and>
         keeps_layout t (cortex_tensor_tanh m (Some t) st) \<and>
         keeps_layout t (cortex_tensor_softmax m (Some t) st)"
  using assms
  by (simp add: keeps_add_scalar keeps_multiply_scalar keeps_exp keeps_log keeps_sqrt
      keeps_relu keeps_sigmoid keeps_tanh keeps_softmax)

text \<open>A 2 by 3 tensor with the gradient flag set, and one added to each element.\<close>

theorem unary_keeps_layout_witness:
  "wf_tensor ((tensor_of [2, 3] [d_one, d_one, d_one, d_one, d_one, d_one])\<lparr>requires_grad := True\<rparr>) \<and>
   cortex_tensor_add_scalar
       (Some ((tensor_of [2, 3] [d_one, d_one, d_one, d_one, d_one, d_one])\<lparr>requires_grad := True\<rparr>))
       d_one (fresh 3)
     = Some (Some \<lparr>data = [d_two, d_two, d_two, d_two, d_two, d_two], shape = [2, 3],
                    ndim = 2, size_el = 6, requires_grad = True\<rparr>, allocated 3 (fresh 3)) \<and>
   keeps_layout ((tensor_of [2, 3] [d_one, d_one, d_one, d_one, d_one, d_one])\<lparr>requires_grad := True\<rparr>)
     (cortex_tensor_add_scalar
       (Some ((tensor_of [2, 3] [d_one, d_one, d_one, d_one, d_one, d_one])\<lparr>requires_grad := True\<rparr>))
       d_one (fresh 3))"
proof -
  let ?t = "(tensor_of [2, 3] [d_one, d_one, d_one, d_one, d_one, d_one])\<lparr>requires_grad := True\<rparr>"
  have "wf_tensor (tensor_of [2, 3] [d_one, d_one, d_one, d_one, d_one, d_one])"
    by (simp add: wf_tensor_of_23)
  then have w: "wf_tensor ?t" by (simp add: wf_tensor_def)
  have a: "alloc_ok 3 (fresh 3)" by (simp add: alloc_ok_fresh)
  have r: "cortex_tensor_add_scalar (Some ?t) d_one (fresh 3)
     = Some (Some \<lparr>data = [d_two, d_two, d_two, d_two, d_two, d_two], shape = [2, 3],
                    ndim = 2, size_el = 6, requires_grad = True\<rparr>, allocated 3 (fresh 3))"
    using add_scalar_ok[OF w a, of d_one] by (simp add: tensor_of_def add_one_one)
  from unary_keeps_layout[OF w, of d_one "fresh 3"]
  have k: "keeps_layout ?t (cortex_tensor_add_scalar (Some ?t) d_one (fresh 3))" by blast
  from w r k show ?thesis by blast
qed

subsection \<open>C4: reshape\<close>



lemma slot_create:
  "slot_rule create_messages st
     (cortex_tensor_create shp nd st)"
  by (auto simp: slot_rule_def holds_message_def create_messages_def copy_messages_def
       Let_def
      split: option.splits prod.splits Option.bind_splits if_splits dest!: create_err)

lemma slot_copy:
  "slot_rule copy_messages st
     (cortex_tensor_copy tensor st)"
  by (auto simp: slot_rule_def holds_message_def create_messages_def copy_messages_def
       Let_def
      split: option.splits prod.splits Option.bind_splits if_splits dest!: copy_err)

lemma slot_zeros:
  "slot_rule create_messages st
     (cortex_zeros shp nd st)"
  by (auto simp: slot_rule_def holds_message_def create_messages_def copy_messages_def
      cortex_zeros_def Let_def
      split: option.splits prod.splits Option.bind_splits if_splits dest!: create_err)

lemma slot_ones:
  "slot_rule create_messages st
     (cortex_ones shp nd st)"
  by (auto simp: slot_rule_def holds_message_def create_messages_def copy_messages_def
      cortex_ones_def Let_def
      split: option.splits prod.splits Option.bind_splits if_splits dest!: create_err)

lemma slot_randn:
  "slot_rule create_messages st
     (cortex_randn m rnd shp nd st)"
  by (auto simp: slot_rule_def holds_message_def create_messages_def copy_messages_def
      cortex_randn_def Let_def
      split: option.splits prod.splits Option.bind_splits if_splits dest!: create_err)

lemma slot_eye:
  "slot_rule create_messages st
     (cortex_eye n st)"
  by (auto simp: slot_rule_def holds_message_def create_messages_def copy_messages_def
      cortex_eye_def Let_def
      split: option.splits prod.splits Option.bind_splits if_splits dest!: create_err)

lemma slot_arange:
  "slot_rule create_messages st
     (cortex_arange start stop step st)"
  by (auto simp: slot_rule_def holds_message_def create_messages_def copy_messages_def
      cortex_arange_def Let_def
      split: option.splits prod.splits Option.bind_splits if_splits dest!: create_err)

lemma slot_add:
  "slot_rule (''Cannot add NULL tensors'' # ''Tensor size mismatch for addition'' # copy_messages) st
     (cortex_tensor_add a b st)"
  by (auto simp: slot_rule_def holds_message_def create_messages_def copy_messages_def
      cortex_tensor_add_def Let_def
      split: option.splits prod.splits Option.bind_splits if_splits dest!: copy_err)

lemma slot_subtract:
  "slot_rule (''Cannot subtract NULL tensors'' # ''Tensor size mismatch for subtraction'' # copy_messages) st
     (cortex_tensor_subtract a b st)"
  by (auto simp: slot_rule_def holds_message_def create_messages_def copy_messages_def
      cortex_tensor_subtract_def Let_def
      split: option.splits prod.splits Option.bind_splits if_splits dest!: copy_err)

lemma slot_multiply:
  "slot_rule (''Cannot multiply NULL tensors'' # ''Tensor size mismatch for multiplication'' # copy_messages) st
     (cortex_tensor_multiply a b st)"
  by (auto simp: slot_rule_def holds_message_def create_messages_def copy_messages_def
      cortex_tensor_multiply_def Let_def
      split: option.splits prod.splits Option.bind_splits if_splits dest!: copy_err)

lemma slot_divide:
  "slot_rule (''Cannot divide NULL tensors'' # ''Tensor size mismatch for division'' # ''Division by zero'' # copy_messages) st
     (cortex_tensor_divide a b st)"
  by (auto simp: slot_rule_def holds_message_def create_messages_def copy_messages_def
      cortex_tensor_divide_def Let_def
      split: option.splits prod.splits Option.bind_splits if_splits sum.splits dest!: copy_err div_loop_Inl)

lemma slot_power:
  "slot_rule (''Cannot raise NULL tensors to power'' # ''Tensor size mismatch for power operation'' # copy_messages) st
     (cortex_tensor_power m a b st)"
  by (auto simp: slot_rule_def holds_message_def create_messages_def copy_messages_def
      cortex_tensor_power_def Let_def
      split: option.splits prod.splits Option.bind_splits if_splits dest!: copy_err)

lemma slot_add_scalar:
  "slot_rule (''Cannot add scalar to NULL tensor'' # copy_messages) st
     (cortex_tensor_add_scalar tensor c st)"
  by (auto simp: slot_rule_def holds_message_def create_messages_def copy_messages_def
      cortex_tensor_add_scalar_def Let_def
      split: option.splits prod.splits Option.bind_splits if_splits dest!: copy_err)

lemma slot_multiply_scalar:
  "slot_rule (''Cannot multiply NULL tensor by scalar'' # copy_messages) st
     (cortex_tensor_multiply_scalar tensor c st)"
  by (auto simp: slot_rule_def holds_message_def create_messages_def copy_messages_def
      cortex_tensor_multiply_scalar_def Let_def
      split: option.splits prod.splits Option.bind_splits if_splits dest!: copy_err)

lemma slot_matmul:
  "slot_rule (''Cannot multiply NULL tensors'' # ''Matrix multiplication requires 2D tensors'' # ''Matrix dimension mismatch for multiplication'' # create_messages) st
     (cortex_tensor_matmul a b st)"
  by (auto simp: slot_rule_def holds_message_def create_messages_def copy_messages_def
      cortex_tensor_matmul_def Let_def
      split: option.splits prod.splits Option.bind_splits if_splits dest!: create_err)

lemma slot_transpose:
  "slot_rule (''Cannot transpose NULL tensor'' # ''Transpose requires 2D tensor'' # create_messages) st
     (cortex_tensor_transpose tensor st)"
  by (auto simp: slot_rule_def holds_message_def create_messages_def copy_messages_def
      cortex_tensor_transpose_def Let_def
      split: option.splits prod.splits Option.bind_splits if_splits dest!: create_err)

lemma slot_exp:
  "slot_rule (''Cannot compute exp of NULL tensor'' # copy_messages) st
     (cortex_tensor_exp m tensor st)"
  by (auto simp: slot_rule_def holds_message_def create_messages_def copy_messages_def
      cortex_tensor_exp_def Let_def
      split: option.splits prod.splits Option.bind_splits if_splits dest!: copy_err)

lemma slot_log:
  "slot_rule (''Cannot compute log of NULL tensor'' # ''Log of non-positive number'' # copy_messages) st
     (cortex_tensor_log m tensor st)"
  by (auto simp: slot_rule_def holds_message_def create_messages_def copy_messages_def
      cortex_tensor_log_def Let_def
      split: option.splits prod.splits Option.bind_splits if_splits sum.splits dest!: copy_err chk_loop_Inl)

lemma slot_sqrt:
  "slot_rule (''Cannot compute sqrt of NULL tensor'' # ''Sqrt of negative number'' # copy_messages) st
     (cortex_tensor_sqrt m tensor st)"
  by (auto simp: slot_rule_def holds_message_def create_messages_def copy_messages_def
      cortex_tensor_sqrt_def Let_def
      split: option.splits prod.splits Option.bind_splits if_splits sum.splits dest!: copy_err chk_loop_Inl)

lemma slot_relu:
  "slot_rule (''Cannot compute ReLU of NULL tensor'' # copy_messages) st
     (cortex_tensor_relu m tensor st)"
  by (auto simp: slot_rule_def holds_message_def create_messages_def copy_messages_def
      cortex_tensor_relu_def Let_def
      split: option.splits prod.splits Option.bind_splits if_splits dest!: copy_err)

lemma slot_sigmoid:
  "slot_rule (''Cannot compute sigmoid of NULL tensor'' # copy_messages) st
     (cortex_tensor_sigmoid m tensor st)"
  by (auto simp: slot_rule_def holds_message_def create_messages_def copy_messages_def
      cortex_tensor_sigmoid_def Let_def
      split: option.splits prod.splits Option.bind_splits if_splits dest!: copy_err)

lemma slot_tanh:
  "slot_rule (''Cannot compute tanh of NULL tensor'' # copy_messages) st
     (cortex_tensor_tanh m tensor st)"
  by (auto simp: slot_rule_def holds_message_def create_messages_def copy_messages_def
      cortex_tensor_tanh_def Let_def
      split: option.splits prod.splits Option.bind_splits if_splits dest!: copy_err)

lemma slot_softmax:
  "slot_rule (''Cannot compute softmax of NULL tensor'' # copy_messages) st
     (cortex_tensor_softmax m tensor st)"
  by (auto simp: slot_rule_def holds_message_def create_messages_def copy_messages_def
      cortex_tensor_softmax_def Let_def
      split: option.splits prod.splits Option.bind_splits if_splits dest!: copy_err)

lemma sslot_sum:
  "scalar_slot_rule [''Cannot compute sum of NULL tensor'']
     (absent tensor) st
     (cortex_tensor_sum tensor st)"
  by (auto simp: scalar_slot_rule_def holds_message_def absent_def empty_tensor_def
      size_differ_def cortex_tensor_sum_def Let_def
      split: option.splits prod.splits Option.bind_splits if_splits)

lemma sslot_mean:
  "scalar_slot_rule [''Cannot compute mean of NULL tensor'']
     (absent tensor) st
     (cortex_tensor_mean tensor st)"
  by (auto simp: scalar_slot_rule_def holds_message_def absent_def empty_tensor_def
      size_differ_def cortex_tensor_mean_def cortex_tensor_sum_def Let_def
      split: option.splits prod.splits Option.bind_splits if_splits)

lemma sslot_std:
  "scalar_slot_rule [''Cannot compute std of NULL tensor'']
     (absent tensor) st
     (cortex_tensor_std m tensor st)"
  by (auto simp: scalar_slot_rule_def holds_message_def absent_def empty_tensor_def
      size_differ_def cortex_tensor_std_def cortex_tensor_mean_def cortex_tensor_sum_def Let_def
      split: option.splits prod.splits Option.bind_splits if_splits)

lemma sslot_var:
  "scalar_slot_rule [''Cannot compute variance of NULL tensor'']
     (absent tensor) st
     (cortex_tensor_var m tensor st)"
  by (auto simp: scalar_slot_rule_def holds_message_def absent_def empty_tensor_def
      size_differ_def cortex_tensor_var_def cortex_tensor_std_def cortex_tensor_mean_def cortex_tensor_sum_def Let_def
      split: option.splits prod.splits Option.bind_splits if_splits)

lemma sslot_min:
  "scalar_slot_rule [''Cannot compute min of NULL or empty tensor'']
     (absent tensor \<or> empty_tensor tensor) st
     (cortex_tensor_min tensor st)"
  by (auto simp: scalar_slot_rule_def holds_message_def absent_def empty_tensor_def
      size_differ_def cortex_tensor_min_def Let_def
      split: option.splits prod.splits Option.bind_splits if_splits)

lemma sslot_max:
  "scalar_slot_rule [''Cannot compute max of NULL or empty tensor'']
     (absent tensor \<or> empty_tensor tensor) st
     (cortex_tensor_max tensor st)"
  by (auto simp: scalar_slot_rule_def holds_message_def absent_def empty_tensor_def
      size_differ_def cortex_tensor_max_def Let_def
      split: option.splits prod.splits Option.bind_splits if_splits)

lemma sslot_mse:
  "scalar_slot_rule [''Cannot compute MSE loss of NULL tensors'', ''Tensor size mismatch for MSE loss'']
     (absent p \<or> absent q \<or> size_differ p q) st
     (cortex_mse_loss p q st)"
  by (auto simp: scalar_slot_rule_def holds_message_def absent_def empty_tensor_def
      size_differ_def cortex_mse_loss_def Let_def
      split: option.splits prod.splits Option.bind_splits if_splits)

lemma sslot_ce:
  "scalar_slot_rule [''Cannot compute cross-entropy loss of NULL tensors'', ''Tensor size mismatch for cross-entropy loss'']
     (absent p \<or> absent q \<or> size_differ p q) st
     (cortex_cross_entropy_loss m p q st)"
  by (auto simp: scalar_slot_rule_def holds_message_def absent_def empty_tensor_def
      size_differ_def cortex_cross_entropy_loss_def Let_def
      split: option.splits prod.splits Option.bind_splits if_splits)

lemma sslot_bce:
  "scalar_slot_rule [''Cannot compute binary cross-entropy loss of NULL tensors'', ''Tensor size mismatch for binary cross-entropy loss'']
     (absent p \<or> absent q \<or> size_differ p q) st
     (cortex_binary_cross_entropy_loss m p q st)"
  by (auto simp: scalar_slot_rule_def holds_message_def absent_def empty_tensor_def
      size_differ_def cortex_binary_cross_entropy_loss_def Let_def
      split: option.splits prod.splits Option.bind_splits if_splits)

subsection \<open>C8: the error slot\<close>

text \<open>
  Claim C8. Every fallible operation that \<open>cortex.c\<close> defines obeys the rule of the error
  slot. A tensor-returning operation that returns the null pointer leaves in
  \<open>g_error_message\<close> one of its own messages or one of those of the copy or creation it
  calls, whatever the slot held before; one that returns a tensor leaves
  \<open>g_error_message\<close> as it was before the call. A scalar-returning operation leaves its
  message on the paths its guards select (an absent operand; for \<open>min\<close> and \<open>max\<close> also a
  size of 0; for the losses also sizes that differ) and the whole state untouched on
  every other path. A call whose behaviour is undefined in C has no result to speak of.
\<close>

theorem error_slot_rule:
  "slot_rule create_messages st
     (cortex_tensor_create shp nd st) \<and>
   slot_rule copy_messages st
     (cortex_tensor_copy tensor st) \<and>
   slot_rule create_messages st
     (cortex_zeros shp nd st) \<and>
   slot_rule create_messages st
     (cortex_ones shp nd st) \<and>
   slot_rule create_messages st
     (cortex_randn m rnd shp nd st) \<and>
   slot_rule create_messages st
     (cortex_eye n st) \<and>
   slot_rule create_messages st
     (cortex_arange start stop step st) \<and>
   slot_rule (''Cannot add NULL tensors'' # ''Tensor size mismatch for addition'' # copy_messages) st
     (cortex_tensor_add a b st) \<and>
   slot_rule (''Cannot subtract NULL tensors'' # ''Tensor size mismatch for subtraction'' # copy_messages) st
     (cortex_tensor_subtract a b st) \<and>
   slot_rule (''Cannot multiply NULL tensors'' # ''Tensor size mismatch for multiplication'' # copy_messages) st
     (cortex_tensor_multiply a b st) \<and>
   slot_rule (''Cannot divide NULL tensors'' # ''Tensor size mismatch for division'' # ''Division by zero'' # copy_messages) st
     (cortex_tensor_divide a b st) \<and>
   slot_rule (''Cannot raise NULL tensors to power'' # ''Tensor size mismatch for power operation'' # copy_messages) st
     (cortex_tensor_power m a b st) \<and>
   slot_rule (''Cannot add scalar to NULL tensor'' # copy_messages) st
     (cortex_tensor_add_scalar tensor c st) \<and>
   slot_rule (''Cannot multiply NULL tensor by scalar'' # copy_messages) st
     (cortex_tensor_multiply_scalar tensor c st) \<and>
   slot_rule (''Cannot multiply NULL tensors'' # ''Matrix multiplication requires 2D tensors'' # ''Matrix dimension mismatch for multiplication'' # create_messages) st
     (cortex_tensor_matmul a b st) \<and>
   slot_rule (''Cannot transpose NULL tensor'' # ''Transpose requires 2D tensor'' # create_messages) st
     (cortex_tensor_transpose tensor st) \<and>
   slot_rule (''Cannot compute exp of NULL tensor'' # copy_messages) st
     (cortex_tensor_exp m tensor st) \<and>
   slot_rule (''Cannot compute log of NULL tensor'' # ''Log of non-positive number'' # copy_messages) st
     (cortex_tensor_log m tensor st) \<and>
   slot_rule (''Cannot compute sqrt of NULL tensor'' # ''Sqrt of negative number'' # copy_messages) st
     (cortex_tensor_sqrt m tensor st) \<and>
   slot_rule (''Cannot compute ReLU of NULL tensor'' # copy_messages) st
     (cortex_tensor_relu m tensor st) \<and>
   slot_rule (''Cannot compute sigmoid of NULL tensor'' # copy_messages) st
     (cortex_tensor_sigmoid m tensor st) \<and>
   slot_rule (''Cannot compute tanh of NULL tensor'' # copy_messages) st
     (cortex_tensor_tanh m tensor st) \<and>
   slot_rule (''Cannot compute softmax of NULL tensor'' # copy_messages) st
     (cortex_tensor_softmax m tensor st) \<and>
   scalar_slot_rule [''Cannot compute sum of NULL tensor'']
     (absent tensor) st
     (cortex_tensor_sum tensor st) \<and>
   scalar_slot_rule [''Cannot compute mean of NULL tensor'']
     (absent tensor) st
     (cortex_tensor_mean tensor st) \<and>
   scalar_slot_rule [''Cannot compute std of NULL tensor'']
     (absent tensor) st
     (cortex_tensor_std m tensor st) \<and>
   scalar_slot_rule [''Cannot compute variance of NULL tensor'']
     (absent tensor) st
     (cortex_tensor_var m tensor st) \<and>
   scalar_slot_rule [''Cannot compute min of NULL or empty tensor'']
     (absent tensor \<or> empty_tensor tensor) st
     (cortex_tensor_min tensor st) \<and>
   scalar_slot_rule [''Cannot compute max of NULL or empty tensor'']
     (absent tensor \<or> empty_tensor tensor) st
     (cortex_tensor_max tensor st) \<and>
   scalar_slot_rule [''Cannot compute MSE loss of NULL tensors'', ''Tensor size mismatch for MSE loss'']
     (absent p \<or> absent q \<or> size_differ p q) st
     (cortex_mse_loss p q st) \<and>
   scalar_slot_rule [''Cannot compute cross-entropy loss of NULL tensors'', ''Tensor size mismatch for cross-entropy loss'']
     (absent p \<or> absent q \<or> size_differ p q) st
     (cortex_cross_entropy_loss m p q st) \<and>
   scalar_slot_rule [''Cannot compute binary cross-entropy loss of NULL tensors'', ''Tensor size mismatch for binary cross-entropy loss'']
     (absent p \<or> absent q \<or> size_differ p q) st
     (cortex_binary_cross_entropy_loss m p q st)"
  by (intro conjI slot_create slot_copy slot_zeros slot_ones slot_randn slot_eye
      slot_arange slot_add slot_subtract slot_multiply slot_divide
      slot_power slot_add_scalar slot_multiply_scalar slot_matmul
      slot_transpose slot_exp slot_log slot_sqrt slot_relu slot_sigmoid
      slot_tanh slot_softmax sslot_sum sslot_mean sslot_std sslot_var
      sslot_min sslot_max sslot_mse sslot_ce sslot_bce)

theorem error_slot_rule_witness:
  "cortex_tensor_divide (Some (vec [d_one, d_one])) (Some (vec [d_zero, d_zero])) (fresh 3)
     = Some (None, \<lparr>g_error_message = Some ''Division by zero'', alloc_plan = [],
                   live_blocks = 1\<rparr>) \<and>
   holds_message [''Division by zero'']
     \<lparr>g_error_message = Some ''Division by zero'', alloc_plan = [], live_blocks = 1\<rparr> \<and>
   cortex_tensor_add (Some (vec [d_one])) (Some (vec [d_one]))
       ((fresh 3)\<lparr>g_error_message := Some ''Division by zero''\<rparr>)
     = Some (Some (vec [d_two]),
             allocated 3 ((fresh 3)\<lparr>g_error_message := Some ''Division by zero''\<rparr>)) \<and>
   g_error_message (allocated 3 ((fresh 3)\<lparr>g_error_message := Some ''Division by zero''\<rparr>))
     = Some ''Division by zero'' \<and>
   cortex_tensor_min (Some (vec [])) (fresh 0)
     = Some (d_zero, \<lparr>g_error_message = Some ''Cannot compute min of NULL or empty tensor'',
                      alloc_plan = [], live_blocks = 1\<rparr>) \<and>
   holds_message [''Cannot compute min of NULL or empty tensor'']
     \<lparr>g_error_message = Some ''Cannot compute min of NULL or empty tensor'',
        alloc_plan = [], live_blocks = 1\<rparr>"
proof -
  let ?e = "\<lparr>g_error_message = Some ''Division by zero'', alloc_plan = [], live_blocks = 1\<rparr>"
  let ?s = "(fresh 3)\<lparr>g_error_message := Some ''Division by zero''\<rparr>"
  let ?m = "\<lparr>g_error_message = Some ''Cannot compute min of NULL or empty tensor'',
              alloc_plan = [], live_blocks = 1\<rparr>"
  have w1: "wf_tensor (vec [d_one, d_one])" and w2: "wf_tensor (vec [d_zero, d_zero])"
    and w3: "wf_tensor (vec [d_one])" by (simp_all add: wf_vec)
  have al: "alloc_ok 3 (fresh 3)" by (simp add: alloc_ok_fresh)
  have al2: "alloc_ok 3 ?s" by (simp add: alloc_ok_def fresh_def)
  have z: "deq d_zero d_zero" by (simp add: d_zero_def scaled_def)
  have d: "cortex_tensor_divide (Some (vec [d_one, d_one])) (Some (vec [d_zero, d_zero])) (fresh 3)
             = Some (None, ?e)"
    using divide_ok[OF w1 w2 _ al] z
    by (simp add: vec_def) (simp add: cortex_set_error_def fresh_def)
  have a: "cortex_tensor_add (Some (vec [d_one])) (Some (vec [d_one])) ?s
             = Some (Some (vec [d_two]), allocated 3 ?s)"
    using add_ok[OF w3 w3 refl al2] by (simp add: vec_def add_one_one)
  have mi: "cortex_tensor_min (Some (vec [])) (fresh 0) = Some (d_zero, ?m)"
    by (simp add: cortex_tensor_min_def vec_def cortex_set_error_def fresh_def)
  have e: "empty_tensor (Some (vec []))" by (simp add: empty_tensor_def vec_def)
  from error_slot_rule[where st = "fresh 3" and a = "Some (vec [d_one, d_one])"
      and b = "Some (vec [d_zero, d_zero])"]
  have "slot_rule (''Cannot divide NULL tensors'' # ''Tensor size mismatch for division'' #
            ''Division by zero'' # copy_messages) (fresh 3)
          (cortex_tensor_divide (Some (vec [d_one, d_one])) (Some (vec [d_zero, d_zero])) (fresh 3))"
    by blast
  with d have h1: "holds_message [''Division by zero''] ?e"
    by (simp add: slot_rule_def holds_message_def)
  from error_slot_rule[where st = ?s and a = "Some (vec [d_one])" and b = "Some (vec [d_one])"]
  have "slot_rule (''Cannot add NULL tensors'' # ''Tensor size mismatch for addition'' #
            copy_messages) ?s
          (cortex_tensor_add (Some (vec [d_one])) (Some (vec [d_one])) ?s)" by blast
  with a have h2: "g_error_message (allocated 3 ?s) = Some ''Division by zero''"
    by (simp add: slot_rule_def)
  from error_slot_rule[where st = "fresh 0" and tensor = "Some (vec [])"]
  have "scalar_slot_rule [''Cannot compute min of NULL or empty tensor'']
          (absent (Some (vec [])) \<or> empty_tensor (Some (vec []))) (fresh 0)
          (cortex_tensor_min (Some (vec [])) (fresh 0))" by blast
  with mi e have h3: "holds_message [''Cannot compute min of NULL or empty tensor''] ?m"
    by (simp add: scalar_slot_rule_def holds_message_def)
  from d h1 a h2 mi h3 show ?thesis by blast
qed

lemma state_kept_sum: "state_kept st (cortex_tensor_sum (Some t) st)"
  by (auto simp: state_kept_def cortex_tensor_sum_def split: option.splits Option.bind_splits)

lemma state_kept_mean: "state_kept st (cortex_tensor_mean (Some t) st)"
  by (auto simp: state_kept_def cortex_tensor_mean_def cortex_tensor_sum_def
      split: option.splits Option.bind_splits)

lemma state_kept_std: "state_kept st (cortex_tensor_std m (Some t) st)"
  by (auto simp: state_kept_def cortex_tensor_std_def cortex_tensor_mean_def
      cortex_tensor_sum_def Let_def split: option.splits Option.bind_splits)

lemma state_kept_var: "state_kept st (cortex_tensor_var m (Some t) st)"
  by (auto simp: state_kept_def cortex_tensor_var_def cortex_tensor_std_def
      cortex_tensor_mean_def cortex_tensor_sum_def Let_def
      split: option.splits Option.bind_splits)

lemma state_kept_min: "size_el t \<noteq> 0 \<Longrightarrow> state_kept st (cortex_tensor_min (Some t) st)"
  by (auto simp: state_kept_def cortex_tensor_min_def split: option.splits Option.bind_splits)

lemma state_kept_max: "size_el t \<noteq> 0 \<Longrightarrow> state_kept st (cortex_tensor_max (Some t) st)"
  by (auto simp: state_kept_def cortex_tensor_max_def split: option.splits Option.bind_splits)

lemma state_kept_mse:
  "size_el tp = size_el tq \<Longrightarrow> state_kept st (cortex_mse_loss (Some tp) (Some tq) st)"
  by (auto simp: state_kept_def cortex_mse_loss_def Let_def
      split: option.splits Option.bind_splits)

lemma state_kept_ce:
  "size_el tp = size_el tq \<Longrightarrow>
     state_kept st (cortex_cross_entropy_loss m (Some tp) (Some tq) st)"
  by (auto simp: state_kept_def cortex_cross_entropy_loss_def Let_def
      split: option.splits Option.bind_splits)

lemma state_kept_bce:
  "size_el tp = size_el tq \<Longrightarrow>
     state_kept st (cortex_binary_cross_entropy_loss m (Some tp) (Some tq) st)"
  by (auto simp: state_kept_def cortex_binary_cross_entropy_loss_def Let_def
      split: option.splits Option.bind_splits)

lemma sum_of_zero: "cortex_tensor_sum (Some (vec [d_zero])) st = Some (d_zero, st)"
proof -
  have "dadd d_zero d_zero = d_zero" by (simp add: d_zero_def scaled_def)
  then show ?thesis
    by (simp add: cortex_tensor_sum_def vec_def for_loop_step for_loop_done load_def)
qed

subsection \<open>C9: the value returned on failure\<close>

text \<open>
  Claim C9. On each of its failure paths a scalar-returning operation records its
  message and returns \<open>0.0\<close>. The failure paths are: an absent operand, for all nine; a
  size of 0, for \<open>min\<close> and \<open>max\<close>; sizes that differ, for the three losses. On every other
  path the state is left as it was, so these are all the failure paths there are. A sum
  that is really zero returns the same \<open>0.0\<close>: only the error slot tells the two apart.
\<close>

theorem scalar_failure_value:
  "cortex_tensor_sum None st =
     Some (d_zero, cortex_set_error ''Cannot compute sum of NULL tensor'' st) \<and>
   cortex_tensor_mean None st =
     Some (d_zero, cortex_set_error ''Cannot compute mean of NULL tensor'' st) \<and>
   cortex_tensor_std m None st =
     Some (d_zero, cortex_set_error ''Cannot compute std of NULL tensor'' st) \<and>
   cortex_tensor_var m None st =
     Some (d_zero, cortex_set_error ''Cannot compute variance of NULL tensor'' st) \<and>
   cortex_tensor_min None st =
     Some (d_zero, cortex_set_error ''Cannot compute min of NULL or empty tensor'' st) \<and>
   cortex_tensor_max None st =
     Some (d_zero, cortex_set_error ''Cannot compute max of NULL or empty tensor'' st) \<and>
   (size_el t = 0 \<longrightarrow>
      cortex_tensor_min (Some t) st =
        Some (d_zero, cortex_set_error ''Cannot compute min of NULL or empty tensor'' st) \<and>
      cortex_tensor_max (Some t) st =
        Some (d_zero, cortex_set_error ''Cannot compute max of NULL or empty tensor'' st)) \<and>
   (p = None \<or> q = None \<longrightarrow>
      cortex_mse_loss p q st =
        Some (d_zero, cortex_set_error ''Cannot compute MSE loss of NULL tensors'' st) \<and>
      cortex_cross_entropy_loss m p q st =
        Some (d_zero,
              cortex_set_error ''Cannot compute cross-entropy loss of NULL tensors'' st) \<and>
      cortex_binary_cross_entropy_loss m p q st =
        Some (d_zero,
              cortex_set_error ''Cannot compute binary cross-entropy loss of NULL tensors'' st)) \<and>
   (size_el tp \<noteq> size_el tq \<longrightarrow>
      cortex_mse_loss (Some tp) (Some tq) st =
        Some (d_zero, cortex_set_error ''Tensor size mismatch for MSE loss'' st) \<and>
      cortex_cross_entropy_loss m (Some tp) (Some tq) st =
        Some (d_zero, cortex_set_error ''Tensor size mismatch for cross-entropy loss'' st) \<and>
      cortex_binary_cross_entropy_loss m (Some tp) (Some tq) st =
        Some (d_zero,
              cortex_set_error ''Tensor size mismatch for binary cross-entropy loss'' st)) \<and>
   state_kept st (cortex_tensor_sum (Some t) st) \<and>
   state_kept st (cortex_tensor_mean (Some t) st) \<and>
   state_kept st (cortex_tensor_std m (Some t) st) \<and>
   state_kept st (cortex_tensor_var m (Some t) st) \<and>
   (size_el t \<noteq> 0 \<longrightarrow>
      state_kept st (cortex_tensor_min (Some t) st) \<and>
      state_kept st (cortex_tensor_max (Some t) st)) \<and>
   (size_el tp = size_el tq \<longrightarrow>
      state_kept st (cortex_mse_loss (Some tp) (Some tq) st) \<and>
      state_kept st (cortex_cross_entropy_loss m (Some tp) (Some tq) st) \<and>
      state_kept st (cortex_binary_cross_entropy_loss m (Some tp) (Some tq) st)) \<and>
   cortex_tensor_sum (Some (vec [d_zero])) st = Some (d_zero, st)"
proof -
  have nulls: "p = None \<or> q = None \<longrightarrow>
      cortex_mse_loss p q st =
        Some (d_zero, cortex_set_error ''Cannot compute MSE loss of NULL tensors'' st) \<and>
      cortex_cross_entropy_loss m p q st =
        Some (d_zero,
              cortex_set_error ''Cannot compute cross-entropy loss of NULL tensors'' st) \<and>
      cortex_binary_cross_entropy_loss m p q st =
        Some (d_zero,
              cortex_set_error ''Cannot compute binary cross-entropy loss of NULL tensors'' st)"
    by (cases p; cases q)
       (simp_all add: cortex_mse_loss_def cortex_cross_entropy_loss_def
          cortex_binary_cross_entropy_loss_def)
  have empties: "size_el t = 0 \<longrightarrow>
      cortex_tensor_min (Some t) st =
        Some (d_zero, cortex_set_error ''Cannot compute min of NULL or empty tensor'' st) \<and>
      cortex_tensor_max (Some t) st =
        Some (d_zero, cortex_set_error ''Cannot compute max of NULL or empty tensor'' st)"
    by (simp add: cortex_tensor_min_def cortex_tensor_max_def)
  have differ: "size_el tp \<noteq> size_el tq \<longrightarrow>
      cortex_mse_loss (Some tp) (Some tq) st =
        Some (d_zero, cortex_set_error ''Tensor size mismatch for MSE loss'' st) \<and>
      cortex_cross_entropy_loss m (Some tp) (Some tq) st =
        Some (d_zero, cortex_set_error ''Tensor size mismatch for cross-entropy loss'' st) \<and>
      cortex_binary_cross_entropy_loss m (Some tp) (Some tq) st =
        Some (d_zero,
              cortex_set_error ''Tensor size mismatch for binary cross-entropy loss'' st)"
    by (simp add: cortex_mse_loss_def cortex_cross_entropy_loss_def
        cortex_binary_cross_entropy_loss_def)
  have absents:
    "cortex_tensor_sum None st =
       Some (d_zero, cortex_set_error ''Cannot compute sum of NULL tensor'' st)"
    "cortex_tensor_mean None st =
       Some (d_zero, cortex_set_error ''Cannot compute mean of NULL tensor'' st)"
    "cortex_tensor_std m None st =
       Some (d_zero, cortex_set_error ''Cannot compute std of NULL tensor'' st)"
    "cortex_tensor_var m None st =
       Some (d_zero, cortex_set_error ''Cannot compute variance of NULL tensor'' st)"
    "cortex_tensor_min None st =
       Some (d_zero, cortex_set_error ''Cannot compute min of NULL or empty tensor'' st)"
    "cortex_tensor_max None st =
       Some (d_zero, cortex_set_error ''Cannot compute max of NULL or empty tensor'' st)"
    by (simp_all add: cortex_tensor_sum_def cortex_tensor_mean_def cortex_tensor_std_def
        cortex_tensor_var_def cortex_tensor_min_def cortex_tensor_max_def)
  have kept1: "state_kept st (cortex_tensor_sum (Some t) st) \<and>
      state_kept st (cortex_tensor_mean (Some t) st) \<and>
      state_kept st (cortex_tensor_std m (Some t) st) \<and>
      state_kept st (cortex_tensor_var m (Some t) st)"
    by (simp add: state_kept_sum state_kept_mean state_kept_std state_kept_var)
  have kept2: "size_el t \<noteq> 0 \<longrightarrow>
      state_kept st (cortex_tensor_min (Some t) st) \<and>
      state_kept st (cortex_tensor_max (Some t) st)"
    by (simp add: state_kept_min state_kept_max)
  have kept3: "size_el tp = size_el tq \<longrightarrow>
      state_kept st (cortex_mse_loss (Some tp) (Some tq) st) \<and>
      state_kept st (cortex_cross_entropy_loss m (Some tp) (Some tq) st) \<and>
      state_kept st (cortex_binary_cross_entropy_loss m (Some tp) (Some tq) st)"
    by (simp add: state_kept_mse state_kept_ce state_kept_bce)
  note z = sum_of_zero[of st]
  from absents nulls empties differ kept1 kept2 kept3 z show ?thesis by blast
qed

theorem scalar_failure_value_witness:
  "size_el (vec []) = 0 \<and>
   cortex_tensor_min (Some (vec [])) (fresh 0) =
     Some (d_zero, \<lparr>g_error_message = Some ''Cannot compute min of NULL or empty tensor'',
                     alloc_plan = [], live_blocks = 1\<rparr>) \<and>
   size_el (vec [d_one]) \<noteq> size_el (vec []) \<and>
   cortex_mse_loss (Some (vec [d_one])) (Some (vec [])) (fresh 0) =
     Some (d_zero, \<lparr>g_error_message = Some ''Tensor size mismatch for MSE loss'',
                     alloc_plan = [], live_blocks = 1\<rparr>) \<and>
   cortex_mse_loss None (Some (vec [])) (fresh 0) =
     Some (d_zero, \<lparr>g_error_message = Some ''Cannot compute MSE loss of NULL tensors'',
                     alloc_plan = [], live_blocks = 1\<rparr>) \<and>
   size_el (vec [d_zero]) \<noteq> 0 \<and>
   state_kept (fresh 0) (cortex_tensor_min (Some (vec [d_zero])) (fresh 0)) \<and>
   cortex_tensor_sum (Some (vec [d_zero])) (fresh 0) = Some (d_zero, fresh 0)"
proof -
  have s0: "size_el (vec []) = 0" by (simp add: vec_def)
  have s1: "size_el (vec [d_one]) \<noteq> size_el (vec [])" by (simp add: vec_def)
  have s2: "size_el (vec [d_zero]) \<noteq> 0" by (simp add: vec_def)
  have se: "\<And>msg. cortex_set_error msg (fresh 0) =
      \<lparr>g_error_message = Some msg, alloc_plan = [], live_blocks = 1\<rparr>"
    by (simp add: cortex_set_error_def fresh_def)
  note th1 = scalar_failure_value[where t = "vec []" and tp = "vec [d_one]" and tq = "vec []"
      and p = None and q = "Some (vec [])" and st = "fresh 0"]
  note th2 = scalar_failure_value[where t = "vec [d_zero]" and st = "fresh 0"]
  from th1 s0 have a: "cortex_tensor_min (Some (vec [])) (fresh 0) =
     Some (d_zero, \<lparr>g_error_message = Some ''Cannot compute min of NULL or empty tensor'',
                     alloc_plan = [], live_blocks = 1\<rparr>)"
    by (auto simp only: se)
  from th1 s1 have b: "cortex_mse_loss (Some (vec [d_one])) (Some (vec [])) (fresh 0) =
     Some (d_zero, \<lparr>g_error_message = Some ''Tensor size mismatch for MSE loss'',
                     alloc_plan = [], live_blocks = 1\<rparr>)"
    by (auto simp only: se)
  from th1 have c: "cortex_mse_loss None (Some (vec [])) (fresh 0) =
     Some (d_zero, \<lparr>g_error_message = Some ''Cannot compute MSE loss of NULL tensors'',
                     alloc_plan = [], live_blocks = 1\<rparr>)"
    by (auto simp only: se)
  from th2 s2 have d: "state_kept (fresh 0) (cortex_tensor_min (Some (vec [d_zero])) (fresh 0))"
    by blast
  from th2 have e: "cortex_tensor_sum (Some (vec [d_zero])) (fresh 0) = Some (d_zero, fresh 0)"
    by blast
  from s0 a s1 b c s2 d e show ?thesis by blast
qed


















lemmas sample_eval = dbl_eval exp_sample_def libm_sample_def d_half_def d_0269_def
  d_0731_def














lemma nbits_sum: "nbits 6160381341547470 = 53"
  by (simp add: nbits_numeral nbits_0 nbits_1)



lemma div_one:
  "ddiv d_one (Finite False 6160381341547470 (- 52)) = d_0731"
proof -
  have "ddiv d_one (Finite False 6160381341547470 (- 52)) =
          round_pack False 242935882318432676511754425705703015 (- 118)"
    by (simp add: d_one_def nbits_sum Let_def)
  also have "\<dots> = d_0731" by (simp add: sample_eval)
  finally show ?thesis .
qed








subsection \<open>C6: softmax and a shift of its input\<close>




end
